theory Spec2Isabelle
  imports Complex_Main "HOL-Library.AList" "HOL-Library.Sublist"
begin

section \<open>Strings, bytes and runes\<close>

text \<open>
  A Go \<^verbatim>\<open>string\<close> and a \<^verbatim>\<open>[]byte\<close> are sequences of bytes; both are modelled by
  \<^typ>\<open>string\<close>, whose characters are the 256 byte values. The functions
  \<^verbatim>\<open>utf8.RuneCountInString\<close>, the conversion \<^verbatim>\<open>[]rune(s)\<close> and the conversion
  \<^verbatim>\<open>string(runes)\<close> of \<^verbatim>\<open>abbreviateString\<close> work on runes, so the UTF-8 decoding and
  encoding of the Go runtime are written out. A rune is a Unicode code point; decoding
  never yields a negative one, so runes are natural numbers here.
\<close>

type_synonym bytes = string
type_synonym rune = nat

definition byte :: "char \<Rightarrow> nat" where
  "byte c = of_char c"

definition RuneError :: rune where
  "RuneError = 0xFFFD"

definition MaxRune :: rune where
  "MaxRune = 0x10FFFF"

text \<open>
  \<^verbatim>\<open>utf8.DecodeRuneInString\<close>: the first rune of the string and its width in bytes. A
  byte that starts no well-formed shortest-form sequence decodes to \<^verbatim>\<open>RuneError\<close> with
  width 1. The second byte of a sequence must lie in the range the first byte accepts
  (which excludes overlong forms, surrogates and values above \<^verbatim>\<open>MaxRune\<close>).
\<close>

definition decodeRune :: "string \<Rightarrow> rune \<times> nat" where
  "decodeRune s = (case s of [] \<Rightarrow> (RuneError, 0) | c # cs \<Rightarrow>
     (let s0 = byte c in
      if s0 < 0x80 then (s0, 1)
      else if s0 < 0xC2 \<or> 0xF4 < s0 then (RuneError, 1)
      else
        let sz = (if s0 < 0xE0 then 2 else if s0 < 0xF0 then 3 else 4 :: nat);
            lo = (if s0 = 0xE0 then 0xA0 else if s0 = 0xF0 then 0x90 else 0x80 :: nat);
            hi = (if s0 = 0xED then 0x9F else if s0 = 0xF4 then 0x8F else 0xBF :: nat)
        in
        if length (c # cs) < sz then (RuneError, 1)
        else
          let s1 = byte (cs ! 0) in
          if s1 < lo \<or> hi < s1 then (RuneError, 1)
          else if sz \<le> 2 then ((s0 mod 32) * 64 + s1 mod 64, 2)
          else
            let s2 = byte (cs ! 1) in
            if s2 < 0x80 \<or> 0xBF < s2 then (RuneError, 1)
            else if sz \<le> 3 then ((s0 mod 16) * 4096 + (s1 mod 64) * 64 + s2 mod 64, 3)
            else
              let s3 = byte (cs ! 2) in
              if s3 < 0x80 \<or> 0xBF < s3 then (RuneError, 1)
              else ((s0 mod 8) * 262144 + (s1 mod 64) * 4096 + (s2 mod 64) * 64
                    + s3 mod 64, 4)))"

text \<open>The conversion \<^verbatim>\<open>[]rune(s)\<close>: decode rune after rune until the string is used up.\<close>

fun runes :: "string \<Rightarrow> rune list" where
  "runes [] = []"
| "runes (c # cs) =
     fst (decodeRune (c # cs)) # runes (drop (snd (decodeRune (c # cs)) - 1) cs)"

text \<open>\<^verbatim>\<open>utf8.RuneCountInString\<close> counts the runes that the conversion yields.\<close>

definition RuneCountInString :: "string \<Rightarrow> nat" where
  "RuneCountInString s = length (runes s)"

text \<open>
  The UTF-8 encoding of one rune, as the conversion \<^verbatim>\<open>string(runes)\<close> writes it: a
  surrogate or a value above \<^verbatim>\<open>MaxRune\<close> is written as \<^verbatim>\<open>RuneError\<close>.
\<close>

definition encodeRune :: "rune \<Rightarrow> string" where
  "encodeRune r =
     (if r < 0x80 then [char_of r]
      else if r < 0x800 then [char_of (0xC0 + r div 64), char_of (0x80 + r mod 64)]
      else if MaxRune < r \<or> (0xD800 \<le> r \<and> r \<le> 0xDFFF)
        then [char_of (0xEF :: nat), char_of (0xBF :: nat), char_of (0xBD :: nat)]
      else if r < 0x10000
        then [char_of (0xE0 + r div 4096), char_of (0x80 + (r div 64) mod 64),
              char_of (0x80 + r mod 64)]
      else [char_of (0xF0 + r div 262144), char_of (0x80 + (r div 4096) mod 64),
            char_of (0x80 + (r div 64) mod 64), char_of (0x80 + r mod 64)])"

text \<open>The Unicode scalar values: the code points that are not surrogates.\<close>

definition valid_rune :: "rune \<Rightarrow> bool" where
  "valid_rune r = (r \<le> 0x10FFFF \<and> \<not> (0xD800 \<le> r \<and> r \<le> 0xDFFF))"

definition string_of_runes :: "rune list \<Rightarrow> string" where
  "string_of_runes rs = concat (map encodeRune rs)"

text \<open>The rune U+2026 and the Go string literal holding it (its three UTF-8 bytes).\<close>

definition ellipsis :: rune where
  "ellipsis = 0x2026"

definition ellipsis_string :: string where
  "ellipsis_string = [char_of (0xE2 :: nat), char_of (0x80 :: nat), char_of (0xA6 :: nat)]"

section \<open>Abbreviating the displayed path\<close>

text \<open>
  \<^verbatim>\<open>abbreviateString\<close> (call.go, lines 388 to 406). The count \<^verbatim>\<open>n\<close> is a \<^verbatim>\<open>uint\<close>; every
  \<^verbatim>\<open>uint\<close> is a natural number and the code subtracts from it only after ruling out 0.
  The assignment \<^verbatim>\<open>runes[n-1] = ...\<close> and the slice \<^verbatim>\<open>runes[:n]\<close> panic at run time when
  the index is out of range, which is a branch of the model.
\<close>

datatype 'a panics = Panic | Done 'a

definition abbreviateString :: "string \<Rightarrow> nat \<Rightarrow> string panics" where
  "abbreviateString s n =
     (if RuneCountInString s \<le> n then Done s
      else if n = 0 then Done []
      else if n = 1 then Done ellipsis_string
      else
        let rs = runes s in
        if length rs \<le> n - 1 then Panic
        else
          let rs' = rs[n - 1 := ellipsis] in
          if length rs' < n then Panic
          else Done (string_of_runes (take n rs')))"


text \<open>
  \<^verbatim>\<open>urlDisplayPath\<close> (lines 376 to 383). Of a parsed \<^verbatim>\<open>url.URL\<close> the code reads the path,
  the raw query and the rendering \<^verbatim>\<open>String()\<close>.
\<close>

record url =
  Path :: string
  RawQuery :: string
  UrlString :: string

definition urlDisplayPath :: "url \<Rightarrow> string panics" where
  "urlDisplayPath uri =
     (case abbreviateString (Path uri) 50 of
        Panic \<Rightarrow> Panic
      | Done s \<Rightarrow>
          if RawQuery uri = [] then Done s
          else (case abbreviateString (RawQuery uri) 6 of
                  Panic \<Rightarrow> Panic
                | Done q \<Rightarrow> Done (s @ ''?'' @ q)))"

section \<open>HTTP headers\<close>

text \<open>
  \<^verbatim>\<open>http.Header\<close> is a map from canonical header names to the list of values added under
  that name; it is kept as an association list with distinct keys. \<^verbatim>\<open>Header.Add\<close>,
  \<^verbatim>\<open>Header.Set\<close> and \<^verbatim>\<open>Header.Get\<close> first bring the name into canonical form
  (\<^verbatim>\<open>textproto.CanonicalMIMEHeaderKey\<close>): a name made of token characters only gets an
  upper-case first letter and an upper-case letter after each hyphen, all other letters
  lower-case; any other name is left as it is.
\<close>

type_synonym header = "(string \<times> string list) list"

definition validHeaderFieldByte :: "char \<Rightarrow> bool" where
  "validHeaderFieldByte c =
     (let b = byte c in
      (0x30 \<le> b \<and> b \<le> 0x39) \<or> (0x41 \<le> b \<and> b \<le> 0x5A) \<or> (0x61 \<le> b \<and> b \<le> 0x7A) \<or>
      b \<in> set [0x21, 0x23, 0x24, 0x25, 0x26, 0x27, 0x2A, 0x2B, 0x2D, 0x2E, 0x5E, 0x5F,
                 0x60, 0x7C, 0x7E])"

definition toUpper :: "char \<Rightarrow> char" where
  "toUpper c =
     (case map_of (zip ''abcdefghijklmnopqrstuvwxyz'' ''ABCDEFGHIJKLMNOPQRSTUVWXYZ'') c of
        None \<Rightarrow> c | Some u \<Rightarrow> u)"

definition toLower :: "char \<Rightarrow> char" where
  "toLower c =
     (case map_of (zip ''ABCDEFGHIJKLMNOPQRSTUVWXYZ'' ''abcdefghijklmnopqrstuvwxyz'') c of
        None \<Rightarrow> c | Some l \<Rightarrow> l)"

fun canonicalLetters :: "bool \<Rightarrow> string \<Rightarrow> string" where
  "canonicalLetters upper [] = []"
| "canonicalLetters upper (c # cs) =
     (let c' = (if upper then toUpper c else toLower c)
      in c' # canonicalLetters (c' = CHR ''-'') cs)"

definition CanonicalMIMEHeaderKey :: "string \<Rightarrow> string" where
  "CanonicalMIMEHeaderKey s =
     (if list_all validHeaderFieldByte s then canonicalLetters True s else s)"

definition headerValues :: "header \<Rightarrow> string \<Rightarrow> string list" where
  "headerValues h k = (case map_of h k of None \<Rightarrow> [] | Some vs \<Rightarrow> vs)"

definition headerAdd :: "header \<Rightarrow> string \<Rightarrow> string \<Rightarrow> header" where
  "headerAdd h key v =
     (let k = CanonicalMIMEHeaderKey key in AList.update k (headerValues h k @ [v]) h)"

definition headerSet :: "header \<Rightarrow> string \<Rightarrow> string \<Rightarrow> header" where
  "headerSet h key v = AList.update (CanonicalMIMEHeaderKey key) [v] h"

definition headerGet :: "header \<Rightarrow> string \<Rightarrow> string" where
  "headerGet h key =
     (case headerValues h (CanonicalMIMEHeaderKey key) of [] \<Rightarrow> [] | v # _ \<Rightarrow> v)"

text \<open>
  The caller's \<^verbatim>\<open>map[string]string\<close> of extra headers: \<^verbatim>\<open>None\<close> is the nil map, the list
  gives the entries in the order in which the \<^verbatim>\<open>range\<close> loop visits them (any order is
  possible; the keys of a map are distinct). Reading a missing key, also of the nil map,
  gives the empty string.
\<close>

type_synonym headers = "(string \<times> string) list option"

definition lookupHeader :: "headers \<Rightarrow> string \<Rightarrow> string" where
  "lookupHeader hs k =
     (case hs of None \<Rightarrow> []
      | Some kvs \<Rightarrow> (case map_of kvs k of None \<Rightarrow> [] | Some v \<Rightarrow> v))"

definition headerEntries :: "headers \<Rightarrow> (string \<times> string) list" where
  "headerEntries hs = (case hs of None \<Rightarrow> [] | Some kvs \<Rightarrow> kvs)"

definition addExplicit :: "header \<Rightarrow> (string \<times> string) list \<Rightarrow> header" where
  "addExplicit h kvs = foldl (\<lambda>h' kv. headerAdd h' (fst kv) (snd kv)) h kvs"

section \<open>Errors and JSON values\<close>

text \<open>
  Modelled from the spec: the declarations of \<^verbatim>\<open>Problem\<close> and \<^verbatim>\<open>HttpStatusError\<close> are not
  part of call.go. The code reads and writes \<^verbatim>\<open>problem.Status\<close> as an \<^verbatim>\<open>int\<close> and builds
  \<^verbatim>\<open>HttpStatusError\<close> from the fields \<^verbatim>\<open>Message\<close>, \<^verbatim>\<open>StatusCode\<close> and \<^verbatim>\<open>WrappedErr\<close>; the
  spec gives a Problem a numeric status and human title and detail fields. The wrapped
  error is either absent or the decoded Problem.
\<close>

record Problem =
  Status :: int
  Title :: string
  Detail :: string

record HttpStatusError =
  Message :: string
  StatusCode :: int
  WrappedErr :: "Problem option"

text \<open>
  A JSON value as the JSON grammar defines it; a number is kept as the literal of the
  text, which \<^verbatim>\<open>json.Unmarshal\<close> converts only when it stores it into its target, an
  object as the list of its members in the order of the text, the names and strings
  unquoted.
\<close>

datatype json =
    JNull
  | JBool bool
  | JNumber string
  | JString string
  | JArray "json list"
  | JObject "(string \<times> json) list"

text \<open>
  The errors that the code builds, one constructor for each place that builds one; the
  arguments are the values that the message is formatted from.
\<close>

datatype error =
    LoginError string
  | MarshalFailed string
  | BodyTypeBug
  | CreateRequestFailed string string
  | CurlFailed string
  | RequestFailed string string string
  | ReadFailed string string int string
  | LoginFailed string
  | FilenameNotProvided string
  | SaveFailed string string
  | JSONParseFailed string bytes
  | StatusError HttpStatusError

section \<open>Requests, responses and the collaborators of the call\<close>

text \<open>
  Modelled from the spec: the configuration context (package \<^verbatim>\<open>config\<close>) is not part of
  call.go. The code reads its \<^verbatim>\<open>URL\<close>, \<^verbatim>\<open>Token\<close>, \<^verbatim>\<open>AuthMethod\<close> and \<^verbatim>\<open>LocalAuthOptions\<close>;
  the type of the latter is left open. The constant \<^verbatim>\<open>config.AuthMethodLocal\<close> is the
  auth method that the spec calls "local".
\<close>

record 'l config =
  URL :: string
  Token :: string
  AuthMethod :: string
  LocalAuthOptions :: 'l

definition AuthMethodLocal :: string where
  "AuthMethodLocal = ''local''"

text \<open>A request body of type \<^verbatim>\<open>any\<close>: a \<^verbatim>\<open>[]byte\<close> or a value of some other type.\<close>

datatype 'b body = ByteSlice bytes | Value 'b

record Request =
  Method :: string
  ReqURL :: url
  Header :: header
  Body :: "bytes option"

text \<open>
  A response as \<^verbatim>\<open>client.Do\<close> returns it: \<^verbatim>\<open>RespBody\<close> is what \<^verbatim>\<open>io.ReadAll\<close> gives for its
  body, the bytes or a read error; \<^verbatim>\<open>RespHeader\<close> may be the nil map.
\<close>

record Response =
  RespStatusCode :: int
  RespHeader :: "header option"
  RespBody :: "string + bytes"

text \<open>
  What the call does to the world outside, in the order in which it happens: the calls
  of \<^verbatim>\<open>login\<close> (with their success), of the progress indicator, of \<^verbatim>\<open>client.Do\<close>, the
  status of the response received and the reading of its body (the bytes read, \<^verbatim>\<open>None\<close>
  for a read error), the call of \<^verbatim>\<open>parseIntoError\<close>, the decoding of the body into the
  output slot and the writing of the file (with their success). Calls of the logger are left out, except \<^verbatim>\<open>log.Fatalf\<close>, which ends the
  process.
\<close>

datatype event =
    EvLogin bool
  | EvStartSpinner string
  | EvStopSpinner bool
  | EvStopSpinnerHide
  | EvDo Request
  | EvResponse int
  | EvReadAll "bytes option"
  | EvParseIntoError
  | EvUnmarshal bool
  | EvWriteFile string bool

text \<open>
  The functions that call.go calls and does not define: of the Go library (URL
  handling, JSON, status texts, the file system, the HTTP client) and of the rest of the
  repository (\<^verbatim>\<open>login\<close>, \<^verbatim>\<open>AddLocalAuthReqHeaders\<close>), and the global flag. They are
  parameters of the model. Those that act on the world outside see the events so far,
  so that two calls may be answered differently.
  \<^item> \<^verbatim>\<open>url_Parse\<close>: \<^verbatim>\<open>url.Parse(cfg.URL)\<close> followed by \<^verbatim>\<open>uri.String()\<close>, \<^verbatim>\<open>None\<close> on error.
  \<^item> \<^verbatim>\<open>http_NewRequest\<close>: the method and the parsed URL of the request that
    \<^verbatim>\<open>http.NewRequestWithContext\<close> returns for a method and a URL, or its error.
  \<^item> \<^verbatim>\<open>json_parse\<close>: the syntax check that \<^verbatim>\<open>json.Unmarshal\<close> starts with and the value
    that the text denotes, \<^verbatim>\<open>None\<close> for text that is not well-formed JSON.
  \<^item> \<^verbatim>\<open>problem_of_json\<close>, \<^verbatim>\<open>any_of_json\<close>: decoding a well-formed value into a
    \<^verbatim>\<open>Problem\<close> and into a variable of type \<^verbatim>\<open>any\<close>, \<^verbatim>\<open>None\<close> on error.
  \<^item> \<^verbatim>\<open>json_Unmarshal_out\<close>: \<^verbatim>\<open>json.Unmarshal(respBytes, out)\<close> for the caller's output
    slot: the error, or the value that the slot then holds.
  \<^item> \<^verbatim>\<open>login\<close>: the error, or the configuration with the refreshed token.
\<close>

record ('b, 'v, 'l) env =
  url_Parse :: "string \<Rightarrow> string option"
  url_JoinPath :: "string \<Rightarrow> string \<Rightarrow> string + string"
  http_NewRequest :: "string \<Rightarrow> string \<Rightarrow> string + (string \<times> url)"
  json_Marshal :: "'b body option \<Rightarrow> string + bytes"
  json_parse :: "bytes \<Rightarrow> json option"
  problem_of_json :: "json \<Rightarrow> Problem option"
  any_of_json :: "json \<Rightarrow> json option"
  json_Unmarshal_out :: "bytes \<Rightarrow> string + 'v"
  format_value :: "json \<Rightarrow> string"
  StatusText :: "int \<Rightarrow> string"
  os_WriteFile :: "event list \<Rightarrow> string \<Rightarrow> bytes \<Rightarrow> string option"
  client_Do :: "event list \<Rightarrow> Request \<Rightarrow> string + Response"
  login :: "event list \<Rightarrow> 'l config \<Rightarrow> string + 'l config"
  AddLocalAuthReqHeaders :: "'l \<Rightarrow> header \<Rightarrow> header"
  http2curl :: "Request \<Rightarrow> string"
  FlagCurlifyRequests :: bool


section \<open>The error classifier\<close>

text \<open>
  \<^verbatim>\<open>json.Unmarshal\<close> checks the syntax of the whole text first and then decodes the value
  into its target.
\<close>

definition json_Unmarshal_Problem :: "('b, 'v, 'l) env \<Rightarrow> bytes \<Rightarrow> Problem option" where
  "json_Unmarshal_Problem E b =
     (case json_parse E b of None \<Rightarrow> None | Some j \<Rightarrow> problem_of_json E j)"

definition json_Unmarshal_any :: "('b, 'v, 'l) env \<Rightarrow> bytes \<Rightarrow> json option" where
  "json_Unmarshal_any E b =
     (case json_parse E b of None \<Rightarrow> None | Some j \<Rightarrow> any_of_json E j)"

text \<open>The verb \<^verbatim>\<open>%d\<close> of \<^verbatim>\<open>fmt.Sprintf\<close> for an \<^verbatim>\<open>int\<close>: its decimal numeral.\<close>

fun digits :: "nat \<Rightarrow> string" where
  "digits n =
     (if n < 10 then [''0123456789'' ! n]
      else digits (n div 10) @ [''0123456789'' ! (n mod 10)])"

definition itoa :: "int \<Rightarrow> string" where
  "itoa i = (if i < 0 then CHR ''-'' # digits (nat (- i)) else digits (nat i))"

text \<open>\<^verbatim>\<open>parseIntoError\<close> (lines 344 to 373).\<close>

definition parseIntoError :: "('b, 'v, 'l) env \<Rightarrow> Response \<Rightarrow> bytes \<Rightarrow> HttpStatusError" where
  "parseIntoError E resp respBytes =
     (case json_Unmarshal_Problem E respBytes of
        Some problem \<Rightarrow>
          let problem' = (if Status problem = 0
                          then problem\<lparr>Status := RespStatusCode resp\<rparr> else problem)
          in \<lparr>Message = StatusText E (RespStatusCode resp),
              StatusCode = RespStatusCode resp, WrappedErr = Some problem'\<rparr>
      | None \<Rightarrow>
          (case json_Unmarshal_any E respBytes of
             Some errobj \<Rightarrow>
               \<lparr>Message = ''status '' @ itoa (RespStatusCode resp) @ '', error response: ''
                             @ format_value E errobj,
                StatusCode = RespStatusCode resp, WrappedErr = None\<rparr>
           | None \<Rightarrow>
               let text = (if respBytes = [] then StatusText E (RespStatusCode resp)
                           else respBytes)
               in \<lparr>Message = ''status: '' @ itoa (RespStatusCode resp) @ '' '' @ text,
                   StatusCode = RespStatusCode resp, WrappedErr = None\<rparr>))"

text \<open>
  Modelled from the spec: the decoding of a JSON value into a \<^verbatim>\<open>Problem\<close> is decided by
  the declaration of \<^verbatim>\<open>Problem\<close>, which is not part of call.go, and by \<^verbatim>\<open>json.Unmarshal\<close>
  of the Go library. The spec gives a Problem a numeric status and title and detail
  fields, and calls the decoding permissive: unknown and missing fields do not fail it.
  The model takes \<^verbatim>\<open>Problem\<close> as a struct of an \<^verbatim>\<open>int\<close> and two strings (on a platform
  whose \<^verbatim>\<open>int\<close> has 64 bits) and decodes it as \<^verbatim>\<open>json.Unmarshal\<close> decodes a struct:
  \<^item> \<^verbatim>\<open>null\<close> is accepted and changes nothing; an array, a string, a number or a boolean
    is a type error.
  \<^item> Of an object each member is stored, in the order of the text, into the field that
    its name selects: the names are compared after case folding, under which the
    letters \<^verbatim>\<open>a\<close> to \<^verbatim>\<open>z\<close> and the runes U+017F and U+212A count as \<^verbatim>\<open>S\<close> and \<^verbatim>\<open>K\<close>. A
    member that selects no field is skipped.
  \<^item> A member \<^verbatim>\<open>null\<close> leaves its field as it is. A string field takes a JSON string
    and nothing else; the \<^verbatim>\<open>int\<close> field takes a number whose literal
    \<^verbatim>\<open>strconv.ParseInt\<close> reads in base 10 within 64 bits (so neither \<^verbatim>\<open>1.0\<close> nor \<^verbatim>\<open>1e2\<close>)
    and nothing else. Any other value for a field is a type error; the decoding goes
    on, and \<^verbatim>\<open>json.Unmarshal\<close> returns the error at the end.
\<close>

definition foldRune :: "rune \<Rightarrow> rune" where
  "foldRune r =
     (if 0x61 \<le> r \<and> r \<le> 0x7A then r - 0x20
      else if r = 0x17F then 0x53
      else if r = 0x212A then 0x4B
      else r)"

text \<open>
  On the runes of the three cases above this is the least rune of the fold set, as in
  the library. Every other rune outside ASCII has a fold set outside ASCII; it is left
  as it is, which makes no difference to the comparison with a name in ASCII.
\<close>

definition foldName :: "string \<Rightarrow> rune list" where
  "foldName s = map foldRune (runes s)"

definition selects :: "string \<Rightarrow> string \<Rightarrow> bool" where
  "selects key field = (foldName key = foldName field)"

definition digit :: "char \<Rightarrow> nat option" where
  "digit c = map_of (zip ''0123456789'' [0, 1, 2, 3, 4, 5, 6, 7, 8, 9]) c"

fun decimal :: "string \<Rightarrow> nat \<Rightarrow> nat option" where
  "decimal [] acc = Some acc"
| "decimal (c # cs) acc =
     (case digit c of None \<Rightarrow> None | Some d \<Rightarrow> decimal cs (10 * acc + d))"

text \<open>\<^verbatim>\<open>strconv.ParseInt(s, 10, 64)\<close>: an optional sign and at least one decimal digit.\<close>

definition ParseInt :: "string \<Rightarrow> int option" where
  "ParseInt s =
     (let neg = (take 1 s = ''-'');
          ds = (if take 1 s = ''-'' \<or> take 1 s = ''+'' then drop 1 s else s)
      in if ds = [] then None
         else (case decimal ds 0 of
                 None \<Rightarrow> None
               | Some n \<Rightarrow>
                   let i = (if neg then - int n else int n)
                   in if - (2 ^ 63) \<le> i \<and> i < 2 ^ 63 then Some i else None))"

definition storeInt :: "json \<Rightarrow> int \<Rightarrow> int option" where
  "storeInt v cur =
     (case v of JNull \<Rightarrow> Some cur | JNumber lit \<Rightarrow> ParseInt lit | _ \<Rightarrow> None)"

definition storeString :: "json \<Rightarrow> string \<Rightarrow> string option" where
  "storeString v cur =
     (case v of JNull \<Rightarrow> Some cur | JString t \<Rightarrow> Some t | _ \<Rightarrow> None)"

text \<open>
  One member stored into the Problem decoded so far; \<^verbatim>\<open>None\<close> once there was a type
  error.
\<close>

definition decodeMember :: "Problem option \<Rightarrow> string \<times> json \<Rightarrow> Problem option" where
  "decodeMember acc kv =
     (case acc of
        None \<Rightarrow> None
      | Some p \<Rightarrow>
          if selects (fst kv) ''status''
          then map_option (\<lambda>n. p\<lparr>Status := n\<rparr>) (storeInt (snd kv) (Status p))
          else if selects (fst kv) ''title''
          then map_option (\<lambda>t. p\<lparr>Title := t\<rparr>) (storeString (snd kv) (Title p))
          else if selects (fst kv) ''detail''
          then map_option (\<lambda>t. p\<lparr>Detail := t\<rparr>) (storeString (snd kv) (Detail p))
          else Some p)"

definition Problem_of_json :: "json \<Rightarrow> Problem option" where
  "Problem_of_json j =
     (case j of
        JObject kvs \<Rightarrow> foldl decodeMember (Some \<lparr>Status = 0, Title = [], Detail = []\<rparr>) kvs
      | JNull \<Rightarrow> Some \<lparr>Status = 0, Title = [], Detail = []\<rparr>
      | _ \<Rightarrow> None)"

text \<open>
  The JSON values that have the shape of a Problem: \<^verbatim>\<open>null\<close>, and an object in which
  every member named \<^verbatim>\<open>status\<close> is \<^verbatim>\<open>null\<close> or an integer literal of 64 bits and every
  member named \<^verbatim>\<open>title\<close> or \<^verbatim>\<open>detail\<close> is \<^verbatim>\<open>null\<close> or a string (names compared after case
  folding).
\<close>

definition fitsInt :: "json \<Rightarrow> bool" where
  "fitsInt v = (case v of JNull \<Rightarrow> True | JNumber lit \<Rightarrow> ParseInt lit \<noteq> None | _ \<Rightarrow> False)"

definition fitsString :: "json \<Rightarrow> bool" where
  "fitsString v = (case v of JNull \<Rightarrow> True | JString t \<Rightarrow> True | _ \<Rightarrow> False)"

definition fitsMember :: "string \<times> json \<Rightarrow> bool" where
  "fitsMember kv =
     (if selects (fst kv) ''status'' then fitsInt (snd kv)
      else if selects (fst kv) ''title'' then fitsString (snd kv)
      else if selects (fst kv) ''detail'' then fitsString (snd kv)
      else True)"

definition problemShaped :: "json \<Rightarrow> bool" where
  "problemShaped j =
     (case j of JNull \<Rightarrow> True | JObject kvs \<Rightarrow> list_all fitsMember kvs | _ \<Rightarrow> False)"

definition is_object :: "json \<Rightarrow> bool" where
  "is_object j = (case j of JObject _ \<Rightarrow> True | _ \<Rightarrow> False)"

section \<open>The request builder\<close>

text \<open>\<^verbatim>\<open>strings.Cut(path, "?")\<close>: the text before and after the first question mark.\<close>

definition cut_query :: "string \<Rightarrow> string \<times> string" where
  "cut_query path =
     (takeWhile (\<lambda>c. c \<noteq> CHR ''?'') path, drop 1 (dropWhile (\<lambda>c. c \<noteq> CHR ''?'') path))"

text \<open>
  \<^verbatim>\<open>getCurlCommandOfRequest\<close> (lines 189 to 207): the command is rendered from a clone of
  the request; the request keeps its body, read through and replaced by a reader of the
  same bytes. Reading a body held in memory does not fail, so the error of \<^verbatim>\<open>io.ReadAll\<close>
  does not arise.
\<close>

definition getCurlCommandOfRequest ::
  "('b, 'v, 'l) env \<Rightarrow> Request \<Rightarrow> (string + string) \<times> Request" where
  "getCurlCommandOfRequest E req =
     (let reqClone = req\<lparr>Header := headerSet (Header req) ''Authorization'' ''Bearer REDACTED''\<rparr>
      in if prefix ''multipart/form-data'' (headerGet (Header reqClone) ''Content-Type'')
         then (Inr (http2curl E (reqClone\<lparr>Body := Some ''@/file/path/REDACTED''\<rparr>)), req)
         else (case Body req of
                 None \<Rightarrow> (Inr (http2curl E reqClone), req)
               | Some b \<Rightarrow> (Inr (http2curl E (reqClone\<lparr>Body := Some b\<rparr>)),
                            req\<lparr>Body := Some b\<rparr>)))"

text \<open>
  The result of building a request: the process was ended by \<^verbatim>\<open>log.Fatalf\<close>, an error
  was returned, or the request.
\<close>

datatype 'a prepared = Fatal | Failed error | Prepared 'a

text \<open>
  The headers that lines 154 to 176 add, in the order of the code. The parameter
  \<^verbatim>\<open>method\<close> of the Go functions is written \<open>meth\<close> throughout, since the word is a
  command of Isabelle.
\<close>

definition synthesizedHeaders :: "string \<Rightarrow> string \<Rightarrow> bool \<Rightarrow> headers \<Rightarrow> header" where
  "synthesizedHeaders meth token jsonify hdrs =
     (let h0 = [];
          h1 = (if jsonify
                then headerAdd h0 ''Content-Type''
                       (if meth = ''PATCH'' then ''application/merge-patch+json''
                        else ''application/json'')
                else h0);
          h2 = (if hdrs = None \<or> lookupHeader hdrs ''Accept'' = []
                then headerAdd h1 ''Accept'' ''application/json'' else h1);
          h3 = (if hdrs = None \<or> lookupHeader hdrs ''Authorization'' = []
                then headerAdd h2 ''Authorization'' (''Bearer '' @ token) else h2)
      in h3)"

definition requestHeaders ::
  "('b, 'v, 'l) env \<Rightarrow> 'l config \<Rightarrow> string \<Rightarrow> bool \<Rightarrow> headers \<Rightarrow> header" where
  "requestHeaders E cfg meth jsonify hdrs =
     (let h3 = synthesizedHeaders meth (Token cfg) jsonify hdrs;
          h4 = (if AuthMethod cfg = AuthMethodLocal
                then AddLocalAuthReqHeaders E (LocalAuthOptions cfg) h3 else h3)
      in addExplicit h4 (headerEntries hdrs))"

text \<open>\<^verbatim>\<open>prepareHTTPRequest\<close> (lines 103 to 187).\<close>

definition prepareHTTPRequest ::
  "('b, 'v, 'l) env \<Rightarrow> 'l config \<Rightarrow> string \<Rightarrow> string \<Rightarrow> 'b body option \<Rightarrow> headers
     \<Rightarrow> Request prepared" where
  "prepareHTTPRequest E cfg meth path body hdrs =
     (let jsonify = (body \<noteq> None \<and> (hdrs = None \<or> lookupHeader hdrs ''Content-Type'' = []));
          bodyReader =
            (if jsonify
             then (case json_Marshal E body of
                     Inl e \<Rightarrow> Inl (MarshalFailed e)
                   | Inr bodyBytes \<Rightarrow> Inr (Some bodyBytes))
             else (case body of
                     None \<Rightarrow> Inr None
                   | Some (ByteSlice bodyBytes) \<Rightarrow> Inr (Some bodyBytes)
                   | Some (Value _) \<Rightarrow> Inl BodyTypeBug))
      in case bodyReader of
           Inl e \<Rightarrow> Failed e
         | Inr reader \<Rightarrow>
             (case url_Parse E (URL cfg) of
                None \<Rightarrow> Fatal
              | Some uri \<Rightarrow>
                  (case url_JoinPath E uri (fst (cut_query path)) of
                     Inl e \<Rightarrow> Failed (CreateRequestFailed uri e)
                   | Inr joinedPath \<Rightarrow>
                       let query = snd (cut_query path);
                           fullPath = (if query = [] then joinedPath
                                       else joinedPath @ ''?'' @ query)
                       in (case http_NewRequest E meth fullPath of
                             Inl e \<Rightarrow> Failed (CreateRequestFailed uri e)
                           | Inr (m, u) \<Rightarrow>
                               let req = \<lparr>Method = m, ReqURL = u,
                                          Header = requestHeaders E cfg meth jsonify hdrs,
                                          Body = reader\<rparr>
                               in if FlagCurlifyRequests E
                                  then (case getCurlCommandOfRequest E req of
                                          (Inl e, _) \<Rightarrow> Failed (CurlFailed e)
                                        | (Inr curlCommand, req') \<Rightarrow> Prepared req')
                                  else Prepared req))))"


section \<open>The request executor\<close>

text \<open>
  \<^verbatim>\<open>Options\<close> (lines 43 to 58). \<^verbatim>\<open>None\<close> stands for a nil map or a nil slice. The field
  \<^verbatim>\<open>Context\<close> is left out: the model has no cancellation.
\<close>

record Options =
  Headers :: headers
  ResponseHeaders :: "header option"
  ExpectedErrors :: "int list option"
  Quiet :: bool

definition emptyOptions :: Options where
  "emptyOptions = \<lparr>Headers = None, ResponseHeaders = None, ExpectedErrors = None,
                    Quiet = False\<rparr>"

text \<open>
  How a call ends: the process is ended by \<^verbatim>\<open>log.Fatalf\<close>, a panic unwinds the call, or
  the call returns its \<^verbatim>\<open>error\<close> (\<^verbatim>\<open>None\<close> is the nil error).
\<close>

datatype outcome = Exit | Panicked | Return "error option"

text \<open>
  One attempt: lines 237 to 256 for the first one and lines 271 to 287, which repeat
  them with another label of the progress indicator, for the retry. It ends the call, or
  hands on the response with the bytes of its body. The attempt receives the events so
  far and returns them extended.
\<close>

definition spinnerLabel :: "bool \<Rightarrow> string \<Rightarrow> string \<Rightarrow> string" where
  "spinnerLabel retry m shown =
     (if retry then ''Platform API call, retry after login ('' @ m @ '' '' @ shown @ '')''
      else ''Platform API call ('' @ m @ '' '' @ shown @ '')'')"

definition attempt ::
  "('b, 'v, 'l) env \<Rightarrow> 'l config \<Rightarrow> string \<Rightarrow> string \<Rightarrow> 'b body option \<Rightarrow> Options \<Rightarrow> bool
     \<Rightarrow> event list \<Rightarrow> (outcome + Response \<times> bytes) \<times> event list" where
  "attempt E cfg meth path body options retry tr =
     (case prepareHTTPRequest E cfg meth path body (Headers options) of
        Fatal \<Rightarrow> (Inl Exit, tr)
      | Failed e \<Rightarrow> (Inl (Return (Some e)), tr)
      | Prepared req \<Rightarrow>
          (case urlDisplayPath (ReqURL req) of
             Panic \<Rightarrow> (Inl Panicked, tr)
           | Done shown \<Rightarrow>
               let tr1 = tr @ [EvStartSpinner (spinnerLabel retry (Method req) shown), EvDo req]
               in (case client_Do E tr1 req of
                     Inl e \<Rightarrow>
                       (Inl (Return (Some (RequestFailed meth (UrlString (ReqURL req)) e))),
                        tr1)
                   | Inr resp \<Rightarrow>
                       let tr2 = tr1 @ [EvResponse (RespStatusCode resp)]
                       in (case RespBody resp of
                             Inl e \<Rightarrow>
                               (Inl (Return (Some (ReadFailed meth (UrlString (ReqURL req))
                                                     (RespStatusCode resp) e))),
                                tr2 @ [EvReadAll None])
                           | Inr respBytes \<Rightarrow>
                               (Inr (resp, respBytes), tr2 @ [EvReadAll (Some respBytes)])))))"

text \<open>
  What a call gives back: how it ended, the value decoded into the output slot (if a
  decoding succeeded), the options as the code leaves them, the configuration and the
  events.
\<close>

record ('v, 'l) result =
  err :: outcome
  out :: "'v option"
  opts :: Options
  conf :: "'l config"
  trace :: "event list"

text \<open>
  Lines 290 to 338: the classification of the response and the handling of its body.
  The quotient \<^verbatim>\<open>resp.StatusCode/100\<close> of Go rounds towards zero and \<open>div\<close> rounds down;
  both are 2 exactly for the codes from 200 to 299. The two branches on
  \<^verbatim>\<open>ExpectedErrors\<close> differ in the level of a log line only.
\<close>

definition finish ::
  "('b, 'v, 'l) env \<Rightarrow> string \<Rightarrow> Options \<Rightarrow> 'l config \<Rightarrow> Response \<Rightarrow> bytes \<Rightarrow> event list
     \<Rightarrow> ('v, 'l) result" where
  "finish E meth options cfg resp respBytes tr =
     (if RespStatusCode resp div 100 \<noteq> 2 \<and> RespStatusCode resp \<noteq> 303
      then \<lparr>err = Return (Some (StatusError (parseIntoError E resp respBytes))), out = None,
             opts = options, conf = cfg, trace = tr @ [EvStopSpinner False, EvParseIntoError]\<rparr>
      else
        let tr1 = tr @ [EvStopSpinner True];
            contentType = (case RespHeader resp of None \<Rightarrow> []
                           | Some h \<Rightarrow> headerGet h ''content-type'');
            options' = options\<lparr>ResponseHeaders :=
                         (case RespHeader resp of None \<Rightarrow> None | Some h \<Rightarrow> Some h)\<rparr>
        in
        if meth \<noteq> ''DELETE'' \<and>
           (contentType = ''application/octet-stream'' \<or> contentType = ''application/zip'')
        then
          let solutionFileName = lookupHeader (Headers options) ''solutionFileName''
          in if solutionFileName = []
             then \<lparr>err = Return (Some (FilenameNotProvided contentType)), out = None,
                    opts = options, conf = cfg, trace = tr1\<rparr>
             else (case os_WriteFile E tr1 solutionFileName respBytes of
                     Some e \<Rightarrow>
                       \<lparr>err = Return (Some (SaveFailed solutionFileName e)), out = None,
                        opts = options, conf = cfg,
                        trace = tr1 @ [EvWriteFile solutionFileName False]\<rparr>
                   | None \<Rightarrow>
                       \<lparr>err = Return None, out = None, opts = options', conf = cfg,
                        trace = tr1 @ [EvWriteFile solutionFileName True]\<rparr>)
        else if meth \<noteq> ''DELETE'' \<and> respBytes \<noteq> [] \<and> RespStatusCode resp \<noteq> 303
        then (case json_Unmarshal_out E respBytes of
                Inl e \<Rightarrow>
                  \<lparr>err = Return (Some (JSONParseFailed e respBytes)), out = None,
                   opts = options, conf = cfg, trace = tr1 @ [EvUnmarshal False]\<rparr>
              | Inr v \<Rightarrow>
                  \<lparr>err = Return None, out = Some v, opts = options', conf = cfg,
                   trace = tr1 @ [EvUnmarshal True]\<rparr>)
        else \<lparr>err = Return None, out = None, opts = options', conf = cfg, trace = tr1\<rparr>)"

definition stopped ::
  "outcome \<Rightarrow> Options \<Rightarrow> 'l config \<Rightarrow> event list \<Rightarrow> ('v, 'l) result" where
  "stopped oc options cfg tr = \<lparr>err = oc, out = None, opts = options, conf = cfg, trace = tr\<rparr>"

text \<open>
  Lines 229 to 339: the call once a token is there, with the configuration and the
  events that the forced login of lines 220 to 227 left. A first response with status
  403 leads to the refresh and the retry of lines 259 to 288.
\<close>

definition afterLogin ::
  "('b, 'v, 'l) env \<Rightarrow> 'l config \<Rightarrow> string \<Rightarrow> string \<Rightarrow> 'b body option \<Rightarrow> Options
     \<Rightarrow> event list \<Rightarrow> ('v, 'l) result" where
  "afterLogin E cfg1 meth path body options tr0 =
     (case attempt E cfg1 meth path body options False tr0 of
        (Inl oc, tr1) \<Rightarrow> stopped oc options cfg1 tr1
      | (Inr (resp, respBytes), tr1) \<Rightarrow>
          if RespStatusCode resp = 403
          then
            (case login E (tr1 @ [EvStopSpinnerHide]) cfg1 of
               Inl e \<Rightarrow>
                 stopped (Return (Some (LoginFailed e))) options cfg1
                   (tr1 @ [EvStopSpinnerHide, EvLogin False])
             | Inr cfg2 \<Rightarrow>
                 (case attempt E cfg2 meth path body options True
                         (tr1 @ [EvStopSpinnerHide, EvLogin True]) of
                    (Inl oc, tr3) \<Rightarrow> stopped oc options cfg2 tr3
                  | (Inr (resp2, respBytes2), tr3) \<Rightarrow>
                      finish E meth options cfg2 resp2 respBytes2 tr3))
          else finish E meth options cfg1 resp respBytes tr1)"

text \<open>
  Lines 220 to 339, the call once the options are there; the deferred
  \<^verbatim>\<open>callCtx.stopSpinner(false)\<close> of line 218 is not yet run.
\<close>

definition httpRequest_run ::
  "('b, 'v, 'l) env \<Rightarrow> 'l config \<Rightarrow> string \<Rightarrow> string \<Rightarrow> 'b body option \<Rightarrow> Options
     \<Rightarrow> ('v, 'l) result" where
  "httpRequest_run E cfg meth path body options =
     (if Token cfg = []
      then (case login E [] cfg of
              Inl e \<Rightarrow> stopped (Return (Some (LoginError e))) options cfg [EvLogin False]
            | Inr cfg' \<Rightarrow> afterLogin E cfg' meth path body options [EvLogin True])
      else afterLogin E cfg meth path body options [])"

text \<open>
  \<^verbatim>\<open>httpRequest\<close> (lines 209 to 339). The caller passes a pointer to its options, \<^verbatim>\<open>None\<close>
  for the nil pointer; line 214 then points the local variable to a fresh \<^verbatim>\<open>Options\<close>,
  which the caller does not see. The result holds in \<^verbatim>\<open>caller_options\<close> what the
  caller's pointer refers to after the call. The deferred call of line 218 runs when
  the function returns or panics, not when the process is ended.
\<close>

record ('v, 'l) returned =
  error_returned :: outcome
  out_slot :: "'v option"
  caller_options :: "Options option"
  config_after :: "'l config"
  events :: "event list"

definition httpRequest ::
  "('b, 'v, 'l) env \<Rightarrow> 'l config \<Rightarrow> string \<Rightarrow> string \<Rightarrow> 'b body option \<Rightarrow> Options option
     \<Rightarrow> ('v, 'l) returned" where
  "httpRequest E cfg meth path body options =
     (let options1 = (case options of None \<Rightarrow> emptyOptions | Some given \<Rightarrow> given);
          r = httpRequest_run E cfg meth path body options1
      in \<lparr>error_returned = err r,
          out_slot = out r,
          caller_options = (case options of None \<Rightarrow> None | Some _ \<Rightarrow> Some (opts r)),
          config_after = conf r,
          events = (if err r = Exit then trace r else trace r @ [EvStopSpinner False])\<rparr>)"

text \<open>The public verbs (lines 61 to 99).\<close>

definition JSONGet where
  "JSONGet E cfg path options = httpRequest E cfg ''GET'' path None options"

definition JSONDelete where
  "JSONDelete E cfg path options = httpRequest E cfg ''DELETE'' path None options"

definition JSONPost where
  "JSONPost E cfg path body options = httpRequest E cfg ''POST'' path body options"

definition HTTPPost where
  "HTTPPost E cfg path body options =
     httpRequest E cfg ''POST'' path (Some (ByteSlice body)) options"

definition HTTPGet where
  "HTTPGet E cfg path options = httpRequest E cfg ''GET'' path None options"

definition JSONPut where
  "JSONPut E cfg path body options = httpRequest E cfg ''PUT'' path body options"

definition JSONPatch where
  "JSONPatch E cfg path body options = httpRequest E cfg ''PATCH'' path body options"

definition JSONRequest where
  "JSONRequest E cfg meth path body options = httpRequest E cfg meth path body options"


section \<open>Reading the events of a call\<close>

text \<open>
  The requests sent and the logins of a list of events; the two events that follow the
  first request sent (the status of the response and the reading of its body); and the
  events after these.
\<close>

definition is_send :: "event \<Rightarrow> bool" where
  "is_send e = (case e of EvDo _ \<Rightarrow> True | _ \<Rightarrow> False)"

definition is_login :: "event \<Rightarrow> bool" where
  "is_login e = (case e of EvLogin _ \<Rightarrow> True | _ \<Rightarrow> False)"

definition first_reply :: "event list \<Rightarrow> event list" where
  "first_reply tr = take 2 (drop 1 (dropWhile (\<lambda>e. \<not> is_send e) tr))"

definition after_first_reply :: "event list \<Rightarrow> event list" where
  "after_first_reply tr = drop 3 (dropWhile (\<lambda>e. \<not> is_send e) tr)"

section \<open>A sample environment\<close>

text \<open>
  Concrete collaborators, for evaluating the model on concrete calls: a base URL
  \<^verbatim>\<open>https://h\<close>, a JSON parser, a Problem decoder and a table of status texts that
  cover the texts, values and codes of the examples, request bodies given by their JSON text, a file system that
  accepts every write and local-auth options that are a list of headers to add. The
  server and the login procedure are the parameters.
\<close>

definition body_not_found :: bytes where
  \<open>body_not_found = ''{"status":404,"title":"not found"}''\<close>

definition body_denied :: bytes where
  \<open>body_denied = ''{"title":"denied"}''\<close>

definition body_id :: bytes where
  \<open>body_id = ''{"id":"abc"}''\<close>

definition body_x :: bytes where
  \<open>body_x = ''{"x":1}''\<close>

definition body_ok :: bytes where
  \<open>body_ok = ''{"ok":true}''\<close>

definition body_bad_status :: bytes where
  \<open>body_bad_status = ''{"status":"x"}''\<close>

definition sample_parse :: "bytes \<Rightarrow> json option" where
  "sample_parse b =
     (if b = body_not_found
        then Some (JObject [(''status'', JNumber ''404''), (''title'', JString ''not found'')])
      else if b = body_denied then Some (JObject [(''title'', JString ''denied'')])
      else if b = body_id then Some (JObject [(''id'', JString ''abc'')])
      else if b = body_ok then Some (JObject [(''ok'', JBool True)])
      else if b = body_bad_status then Some (JObject [(''status'', JString ''x'')])
      else if b = ''{}'' then Some (JObject [])
      else if b = ''null'' then Some JNull
      else if b = ''[1]'' then Some (JArray [JNumber ''1''])
      else None)"

text \<open>The Problem that each object of the examples decodes to.\<close>

definition sample_problem :: "json \<Rightarrow> Problem option" where
  "sample_problem j =
     (if j = JObject [(''status'', JNumber ''404''), (''title'', JString ''not found'')]
        then Some \<lparr>Status = 404, Title = ''not found'', Detail = []\<rparr>
      else if j = JObject [(''title'', JString ''denied'')]
        then Some \<lparr>Status = 0, Title = ''denied'', Detail = []\<rparr>
      else if j = JObject [(''id'', JString ''abc'')] \<or> j = JObject [(''ok'', JBool True)]
                \<or> j = JObject [] \<or> j = JNull
        then Some \<lparr>Status = 0, Title = [], Detail = []\<rparr>
      else None)"

definition sample_format :: "json \<Rightarrow> string" where
  "sample_format j =
     (if j = JArray [JNumber ''1''] then ''[1]''
      else if j = JObject [(''status'', JString ''x'')] then ''map[status:x]''
      else ''<value>'')"

definition sample_StatusText :: "int \<Rightarrow> string" where
  "sample_StatusText code =
     (if code = 403 then ''Forbidden'' else if code = 404 then ''Not Found''
      else if code = 500 then ''Internal Server Error'' else [])"

definition sample_url :: "string \<Rightarrow> url" where
  "sample_url u = \<lparr>Path = drop 9 (fst (cut_query u)), RawQuery = snd (cut_query u),
                    UrlString = u\<rparr>"

definition sample_Marshal :: "bytes body option \<Rightarrow> string + bytes" where
  "sample_Marshal b =
     (case b of None \<Rightarrow> Inr ''null'' | Some (Value t) \<Rightarrow> Inr t
      | Some (ByteSlice bs) \<Rightarrow> Inl ''not covered'')"

definition sample_env ::
  "(event list \<Rightarrow> Request \<Rightarrow> string + Response)
     \<Rightarrow> (event list \<Rightarrow> (string \<times> string) list config \<Rightarrow> string + (string \<times> string) list config)
     \<Rightarrow> (bytes, json, (string \<times> string) list) env" where
  "sample_env server logon =
     \<lparr>url_Parse = Some,
      url_JoinPath = (\<lambda>uri p. Inr (uri @ p)),
      http_NewRequest = (\<lambda>m u. Inr (m, sample_url u)),
      json_Marshal = sample_Marshal,
      json_parse = sample_parse,
      problem_of_json = sample_problem,
      any_of_json = Some,
      json_Unmarshal_out =
        (\<lambda>b. case sample_parse b of None \<Rightarrow> Inl ''invalid JSON'' | Some j \<Rightarrow> Inr j),
      format_value = sample_format,
      StatusText = sample_StatusText,
      os_WriteFile = (\<lambda>tr name b. None),
      client_Do = server,
      login = logon,
      AddLocalAuthReqHeaders = (\<lambda>kvs h. addExplicit h kvs),
      http2curl = (\<lambda>req. []),
      FlagCurlifyRequests = False\<rparr>"

definition sample_config :: "string \<Rightarrow> (string \<times> string) list config" where
  "sample_config t = \<lparr>URL = ''https://h'', Token = t, AuthMethod = ''oauth'',
                       LocalAuthOptions = []\<rparr>"

definition local_config :: "(string \<times> string) list config" where
  "local_config = \<lparr>URL = ''https://h'', Token = ''tok'', AuthMethod = ''local'',
                    LocalAuthOptions = [(''appd-pid'', ''p1'')]\<rparr>"

text \<open>The request that a call for the path \<^verbatim>\<open>/x\<close> with no body and no extra headers sends.\<close>

definition sample_request :: "string \<Rightarrow> string \<Rightarrow> Request" where
  "sample_request m t =
     \<lparr>Method = m,
      ReqURL = \<lparr>Path = ''/x'', RawQuery = [], UrlString = ''https://h/x''\<rparr>,
      Header = [(''Accept'', [''application/json'']), (''Authorization'', [''Bearer '' @ t])],
      Body = None\<rparr>"

definition respond :: "int \<Rightarrow> bytes \<Rightarrow> Response" where
  "respond code b = \<lparr>RespStatusCode = code,
                      RespHeader = Some [(''Content-Type'', [''application/json''])],
                      RespBody = Inr b\<rparr>"

text \<open>
  Servers and login procedures: a server that gives the same answer to every request,
  one that answers 403 until it has seen a login and 200 from then on, one whose 403
  response has a body that cannot be read, a login that sets a new token and one that
  fails.
\<close>

definition server_always :: "int \<Rightarrow> bytes \<Rightarrow> event list \<Rightarrow> Request \<Rightarrow> string + Response" where
  "server_always code b tr req = Inr (respond code b)"

definition server_expired :: "event list \<Rightarrow> Request \<Rightarrow> string + Response" where
  "server_expired tr req =
     (if EvLogin True \<in> set tr then Inr (respond 200 body_ok)
      else Inr (respond 403 body_denied))"

definition server_unreadable :: "event list \<Rightarrow> Request \<Rightarrow> string + Response" where
  "server_unreadable tr req =
     Inr \<lparr>RespStatusCode = 403, RespHeader = None, RespBody = Inl ''connection reset''\<rparr>"

definition login_sets ::
  "string \<Rightarrow> event list \<Rightarrow> (string \<times> string) list config
     \<Rightarrow> string + (string \<times> string) list config" where
  "login_sets t tr cfg = Inr (cfg\<lparr>Token := t\<rparr>)"

definition login_fails ::
  "event list \<Rightarrow> (string \<times> string) list config \<Rightarrow> string + (string \<times> string) list config" where
  "login_fails tr cfg = Inl ''no credentials''"

text \<open>The sample environment with the decoding of a Problem as modelled above.\<close>

definition decoding_env :: "(bytes, json, (string \<times> string) list) env" where
  "decoding_env =
     (sample_env (server_always 500 []) login_fails)\<lparr>problem_of_json := Problem_of_json\<rparr>"

section \<open>UTF-8: decoding inverts encoding\<close>

declare runes.simps(2) [simp del]

lemma byte_char_of: "n < 256 \<Longrightarrow> byte (char_of n) = n"
  by (simp add: byte_def)

lemma regroup64: "(a * 64 + b) * k = a * (64 * k) + b * (k::nat)"
  by (simp add: algebra_simps)

lemma split3: "(r div 4096) * 4096 + ((r div 64) mod 64) * 64 + r mod 64 = (r::nat)"
proof -
  define q where "q = r div 64"
  have a: "r div 4096 = q div 64" by (simp add: q_def div_mult2_eq[symmetric])
  have "q * 64 = (q div 64 * 64 + q mod 64) * 64" by (simp only: div_mult_mod_eq)
  also have "\<dots> = q div 64 * 4096 + q mod 64 * 64" by (simp only: regroup64)
  finally have "q div 64 * 4096 + q mod 64 * 64 = q * 64" by simp
  moreover have "q * 64 + r mod 64 = r" by (simp add: q_def)
  ultimately show ?thesis unfolding a q_def[symmetric] by linarith
qed

lemma split4: "(r div 262144) * 262144 + ((r div 4096) mod 64) * 4096 + ((r div 64) mod 64) * 64 + r mod 64 = (r::nat)"
proof -
  define p where "p = r div 4096"
  have b: "r div 262144 = p div 64" by (simp add: p_def div_mult2_eq[symmetric])
  have "p * 4096 = (p div 64 * 64 + p mod 64) * 4096" by (simp only: div_mult_mod_eq)
  also have "\<dots> = p div 64 * 262144 + p mod 64 * 4096" by (simp only: regroup64)
  finally have "p div 64 * 262144 + p mod 64 * 4096 = p * 4096" by simp
  moreover have "p * 4096 + ((r div 64) mod 64) * 64 + r mod 64 = r"
    unfolding p_def by (rule split3)
  ultimately show ?thesis unfolding b p_def[symmetric] by linarith
qed

lemma cont_byte: "q < 64 \<Longrightarrow> (128 + q) mod 64 = (q::nat)"
  using mod_mult_self3[of 2 64 q] by simp

lemma lead2: "q < 32 \<Longrightarrow> (192 + q) mod 32 = (q::nat)"
  using mod_mult_self3[of 6 32 q] by simp

lemma lead3: "q < 16 \<Longrightarrow> (224 + q) mod 16 = (q::nat)"
  using mod_mult_self3[of 14 16 q] by simp

lemma lead4: "q < 8 \<Longrightarrow> (240 + q) mod 8 = (q::nat)"
  using mod_mult_self3[of 30 8 q] by simp


lemma decode_encode1:
  assumes "r < 0x80"
  shows "decodeRune (encodeRune r @ t) = (r, 1)"
  using assms by (simp add: decodeRune_def encodeRune_def byte_char_of)

lemma decode_encode2:
  assumes "0x80 \<le> r" "r < 0x800"
  shows "decodeRune (encodeRune r @ t) = (r, 2)"
proof -
  define q0 where "q0 = r div 64"
  define q1 where "q1 = r mod 64"
  have q0: "2 \<le> q0" "q0 < 32"
    using assms div_le_mono[of 128 r 64] by (simp_all add: q0_def less_mult_imp_div_less)
  have q1: "q1 < 64" by (simp add: q1_def)
  have e: "encodeRune r = [char_of (192 + q0), char_of (128 + q1)]"
    using assms by (simp add: encodeRune_def q0_def q1_def)
  have b: "byte (char_of (192 + q0)) = 192 + q0" "byte (char_of (128 + q1)) = 128 + q1"
    using q0 q1 by (simp_all add: byte_char_of)
  have r: "q0 * 64 + q1 = r" by (simp add: q0_def q1_def)
  show ?thesis
    using q0 q1 r unfolding e decodeRune_def
    by (simp add: Let_def b lead2 cont_byte)
qed


lemma decode_encode3:
  assumes "0x800 \<le> r" "r < 0x10000" "\<not> (0xD800 \<le> r \<and> r \<le> 0xDFFF)"
  shows "decodeRune (encodeRune r @ t) = (r, 3)"
proof -
  define q0 where "q0 = r div 4096"
  define q1 where "q1 = (r div 64) mod 64"
  define q2 where "q2 = r mod 64"
  have r: "q0 * 4096 + q1 * 64 + q2 = r"
    unfolding q0_def q1_def q2_def by (rule split3)
  have q12: "q1 < 64" "q2 < 64" by (simp_all add: q1_def q2_def)
  have q0: "q0 < 16" using assms(2) by (simp add: q0_def less_mult_imp_div_less)
  have lo: "q0 = 0 \<Longrightarrow> 32 \<le> q1" using r q12 assms(1) by linarith
  have hi: "q0 = 13 \<Longrightarrow> q1 < 32" using r q12 assms(3) by linarith
  have e: "encodeRune r = [char_of (224 + q0), char_of (128 + q1), char_of (128 + q2)]"
    using assms by (auto simp add: encodeRune_def q0_def q1_def q2_def MaxRune_def)
  have b: "byte (char_of (224 + q0)) = 224 + q0" "byte (char_of (128 + q1)) = 128 + q1"
    "byte (char_of (128 + q2)) = 128 + q2"
    using q0 q12 by (simp_all add: byte_char_of)
  show ?thesis
    using q0 q12 r lo hi unfolding e decodeRune_def
    by (auto simp add: Let_def b lead3 cont_byte)
qed

lemma decode_encode4:
  assumes "0x10000 \<le> r" "r \<le> 0x10FFFF"
  shows "decodeRune (encodeRune r @ t) = (r, 4)"
proof -
  define q0 where "q0 = r div 262144"
  define q1 where "q1 = (r div 4096) mod 64"
  define q2 where "q2 = (r div 64) mod 64"
  define q3 where "q3 = r mod 64"
  have r: "q0 * 262144 + q1 * 4096 + q2 * 64 + q3 = r"
    unfolding q0_def q1_def q2_def q3_def by (rule split4)
  have q123: "q1 < 64" "q2 < 64" "q3 < 64" by (simp_all add: q1_def q2_def q3_def)
  have q0: "q0 < 5" using assms(2) by (simp add: q0_def less_mult_imp_div_less)
  have lo: "q0 = 0 \<Longrightarrow> 16 \<le> q1" using r q123 assms(1) by linarith
  have hi: "q0 = 4 \<Longrightarrow> q1 < 16" using r q123 assms(2) by linarith
  have e: "encodeRune r = [char_of (240 + q0), char_of (128 + q1), char_of (128 + q2),
      char_of (128 + q3)]"
    using assms by (simp add: encodeRune_def q0_def q1_def q2_def q3_def MaxRune_def)
  have b: "byte (char_of (240 + q0)) = 240 + q0" "byte (char_of (128 + q1)) = 128 + q1"
    "byte (char_of (128 + q2)) = 128 + q2" "byte (char_of (128 + q3)) = 128 + q3"
    using q0 q123 by (simp_all add: byte_char_of)
  show ?thesis
    using q0 q123 r lo hi unfolding e decodeRune_def
    by (auto simp add: Let_def b lead4 cont_byte)
qed

lemma length_encodeRune:
  "length (encodeRune r) =
     (if r < 0x80 then 1 else if r < 0x800 then 2
      else if MaxRune < r \<or> (0xD800 \<le> r \<and> r \<le> 0xDFFF) then 3
      else if r < 0x10000 then 3 else 4)"
  by (simp add: encodeRune_def)

lemma decode_encode:
  assumes "valid_rune r"
  shows "decodeRune (encodeRune r @ t) = (r, length (encodeRune r))"
proof -
  consider "r < 0x80" | "0x80 \<le> r" "r < 0x800" | "0x800 \<le> r" "r < 0x10000"
    | "0x10000 \<le> r"
    by linarith
  then show ?thesis
  proof cases
    case 1
    then show ?thesis by (simp add: decode_encode1 length_encodeRune)
  next
    case 2
    then show ?thesis by (simp add: decode_encode2 length_encodeRune)
  next
    case 3
    then show ?thesis
      using assms by (simp add: decode_encode3 length_encodeRune valid_rune_def MaxRune_def)
  next
    case 4
    then show ?thesis
      using assms by (simp add: decode_encode4 length_encodeRune valid_rune_def MaxRune_def)
  qed
qed

lemma runes_encodeRune:
  assumes "valid_rune r"
  shows "runes (encodeRune r @ t) = r # runes t"
proof -
  have n: "encodeRune r \<noteq> []" by (simp add: encodeRune_def)
  then obtain c cs where e: "encodeRune r = c # cs" by (cases "encodeRune r") auto
  have d: "decodeRune (c # cs @ t) = (r, Suc (length cs))"
    using decode_encode[OF assms, of t] by (simp add: e)
  show ?thesis by (simp add: e d runes.simps(2))
qed

lemma runes_string_of_runes:
  "\<forall>r\<in>set rs. valid_rune r \<Longrightarrow> runes (string_of_runes rs @ t) = rs @ runes t"
  by (induction rs) (simp_all add: string_of_runes_def runes_encodeRune)


lemma cont_byte_mod: "128 \<le> x \<Longrightarrow> x < 192 \<Longrightarrow> x mod 64 = x - (128::nat)"
  using cont_byte[of "x - 128"] by simp

lemma lead3_mod: "224 \<le> x \<Longrightarrow> x < 240 \<Longrightarrow> x mod 16 = x - (224::nat)"
  using lead3[of "x - 224"] by simp

lemma lead4_mod: "240 \<le> x \<Longrightarrow> x < 248 \<Longrightarrow> x mod 8 = x - (240::nat)"
  using lead4[of "x - 240"] by simp

lemma valid_RuneError: "valid_rune RuneError"
  by (simp add: valid_rune_def RuneError_def)

lemma valid1: "s0 < 0x80 \<Longrightarrow> valid_rune s0"
  by (simp add: valid_rune_def)

lemma valid2: "valid_rune ((s0 mod 32) * 64 + s1 mod 64)"
proof -
  have "s0 mod 32 < 32" "s1 mod 64 < 64" by simp_all
  then show ?thesis unfolding valid_rune_def by linarith
qed

lemma valid3:
  assumes "224 \<le> s0" "s0 < 240"
    and "(if s0 = 224 then 160 else 128) \<le> s1" "s1 \<le> (if s0 = 237 then 159 else 191)"
  shows "valid_rune ((s0 mod 16) * 4096 + (s1 mod 64) * 64 + s2 mod 64)"
proof -
  have s1: "128 \<le> s1" "s1 < 192" using assms(3,4) by (auto split: if_splits)
  have m: "s0 mod 16 = s0 - 224" "s1 mod 64 = s1 - 128"
    using assms(1,2) s1 by (simp_all add: lead3_mod cont_byte_mod)
  have "s2 mod 64 < 64" by simp
  then show ?thesis
    using assms s1 unfolding valid_rune_def m by (auto split: if_splits)
qed

lemma valid4:
  assumes "240 \<le> s0" "s0 \<le> 244"
    and "(if s0 = 240 then 144 else 128) \<le> s1" "s1 \<le> (if s0 = 244 then 143 else 191)"
  shows "valid_rune ((s0 mod 8) * 262144 + (s1 mod 64) * 4096 + (s2 mod 64) * 64 + s3 mod 64)"
proof -
  have s1: "128 \<le> s1" "s1 < 192" using assms(3,4) by (auto split: if_splits)
  have m: "s0 mod 8 = s0 - 240" "s1 mod 64 = s1 - 128"
    using assms(1,2) s1 by (simp_all add: lead4_mod cont_byte_mod)
  have "s2 mod 64 < 64" "s3 mod 64 < 64" by simp_all
  then show ?thesis
    using assms s1 unfolding valid_rune_def m by (auto split: if_splits)
qed

lemma decodeRune_valid: "valid_rune (fst (decodeRune s))"
proof (cases s)
  case Nil
  then show ?thesis by (simp add: decodeRune_def valid_RuneError)
next
  case (Cons c cs)
  consider "byte c < 0x80" | "0x80 \<le> byte c" "byte c < 0xC2 \<or> 0xF4 < byte c"
    | "0xC2 \<le> byte c" "byte c < 0xE0" | "0xE0 \<le> byte c" "byte c < 0xF0"
    | "0xF0 \<le> byte c" "byte c \<le> 0xF4"
    by linarith
  then show ?thesis
  proof cases
    case 1
    then show ?thesis by (simp add: Cons decodeRune_def valid1)
  next
    case 2
    then show ?thesis by (auto simp add: Cons decodeRune_def valid_RuneError)
  next
    case 3
    then show ?thesis by (simp add: Cons decodeRune_def Let_def valid_RuneError valid2)
  next
    case 4
    then show ?thesis
      using valid3[of "byte c" "byte (cs ! 0)" "byte (cs ! 1)"]
      by (auto simp add: Cons decodeRune_def Let_def valid_RuneError not_less split: if_splits)
  next
    case 5
    then show ?thesis
      using valid4[of "byte c" "byte (cs ! 0)" "byte (cs ! 1)" "byte (cs ! 2)"]
      by (auto simp add: Cons decodeRune_def Let_def valid_RuneError not_less split: if_splits)
  qed
qed

lemma runes_valid: "\<forall>r\<in>set (runes s). valid_rune r"
  by (induction s rule: runes.induct) (simp_all add: decodeRune_valid runes.simps(2))


lemma valid_ellipsis: "valid_rune ellipsis"
  by (simp add: valid_rune_def ellipsis_def)

lemma encode_ellipsis: "encodeRune ellipsis = ellipsis_string"
  by (simp add: encodeRune_def ellipsis_def ellipsis_string_def MaxRune_def)

lemma runes_ellipsis_string: "runes ellipsis_string = [ellipsis]"
  using runes_encodeRune[OF valid_ellipsis, of "[]"] by (simp add: encode_ellipsis)

lemma take_update_last:
  assumes "0 < n" "n \<le> length xs"
  shows "take n (xs[n - 1 := x]) = take (n - 1) xs @ [x]"
proof -
  obtain m where n: "n = Suc m" using assms(1) by (cases n) auto
  have "m < length (xs[m := x])" using assms(2) n by simp
  then have "take (Suc m) (xs[m := x]) = take m (xs[m := x]) @ [xs[m := x] ! m]"
    by (rule take_Suc_conv_app_nth)
  then show ?thesis using assms(2) n by simp
qed


section \<open>Properties of the abbreviation\<close>

lemma runes_ascii_step: "byte c < 0x80 \<Longrightarrow> runes (c # cs) = byte c # runes cs"
  by (simp add: decodeRune_def runes.simps(2))


text \<open>
  C8: for every string \<open>s\<close> and every \<open>n\<close>, \<^verbatim>\<open>abbreviateString(s, n)\<close> returns \<open>s\<close> unchanged
  when the rune count of \<open>s\<close> is at most \<open>n\<close>. Otherwise it returns (without a panic) a
  string of exactly \<open>n\<close> runes: the empty string for \<open>n = 0\<close>, the bare ellipsis for
  \<open>n = 1\<close>, and for \<open>n \<ge> 2\<close> a string whose last rune is the ellipsis and whose first
  \<open>n - 1\<close> runes are the first \<open>n - 1\<close> runes of \<open>s\<close>.
\<close>

theorem abbreviateString_spec:
  "(RuneCountInString s \<le> n \<longrightarrow> abbreviateString s n = Done s) \<and>
   (n < RuneCountInString s \<longrightarrow>
      (\<exists>t. abbreviateString s n = Done t \<and> RuneCountInString t = n \<and>
           (n = 0 \<longrightarrow> t = []) \<and> (n = 1 \<longrightarrow> t = ellipsis_string) \<and>
           (2 \<le> n \<longrightarrow> last (runes t) = ellipsis \<and>
                        take (n - 1) (runes t) = take (n - 1) (runes s))))"
proof (intro conjI impI)
  assume "RuneCountInString s \<le> n"
  then show "abbreviateString s n = Done s" by (simp add: abbreviateString_def)
next
  assume less: "n < RuneCountInString s"
  consider "n = 0" | "n = 1" | "2 \<le> n" by linarith
  then show "\<exists>t. abbreviateString s n = Done t \<and> RuneCountInString t = n \<and>
           (n = 0 \<longrightarrow> t = []) \<and> (n = 1 \<longrightarrow> t = ellipsis_string) \<and>
           (2 \<le> n \<longrightarrow> last (runes t) = ellipsis \<and>
                        take (n - 1) (runes t) = take (n - 1) (runes s))"
  proof cases
    case 1
    then show ?thesis using less by (simp add: abbreviateString_def RuneCountInString_def)
  next
    case 2
    then show ?thesis
      using less by (simp add: abbreviateString_def RuneCountInString_def runes_ellipsis_string)
  next
    case 3
    define rs where "rs = runes s"
    define t where "t = string_of_runes (take n (rs[n - 1 := ellipsis]))"
    have len: "n < length rs" using less by (simp add: rs_def RuneCountInString_def)
    have a: "abbreviateString s n = Done t"
      using 3 len less by (simp add: abbreviateString_def Let_def rs_def t_def)
    have tk: "take n (rs[n - 1 := ellipsis]) = take (n - 1) rs @ [ellipsis]"
      using take_update_last[of n rs ellipsis] 3 len by simp
    have "\<forall>r\<in>set (take (n - 1) rs @ [ellipsis]). valid_rune r"
      using runes_valid[of s] valid_ellipsis by (auto simp add: rs_def dest: in_set_takeD)
    then have r: "runes t = take (n - 1) rs @ [ellipsis]"
      unfolding t_def tk
      using runes_string_of_runes[of "take (n - 1) rs @ [ellipsis]" "[]"] by simp
    have "RuneCountInString t = n"
      using 3 len by (simp add: RuneCountInString_def r)
    then show ?thesis using a r 3 len by (simp add: rs_def)
  qed
qed


text \<open>
  The theorem at two inputs: a short string that is returned as it is, and a string of
  six runes, one of them of three bytes, cut to four.
\<close>

theorem abbreviateString_spec_witness:
  "RuneCountInString ''abc'' \<le> 5 \<and> abbreviateString ''abc'' 5 = Done ''abc'' \<and>
   4 < RuneCountInString (''n'' @ ellipsis_string @ ''tion'') \<and>
   (\<exists>t. abbreviateString (''n'' @ ellipsis_string @ ''tion'') 4 = Done t \<and>
        RuneCountInString t = 4 \<and> last (runes t) = ellipsis \<and>
        take 3 (runes t) = take 3 (runes (''n'' @ ellipsis_string @ ''tion'')))"
proof -
  have r: "runes (''n'' @ ellipsis_string @ ''tion'') = [110, ellipsis, 116, 105, 111, 110]"
    using runes_encodeRune[OF valid_ellipsis, of "''tion''"]
    by (simp add: runes_ascii_step byte_def encode_ellipsis)
  have l1: "RuneCountInString ''abc'' \<le> 5"
    by (simp add: RuneCountInString_def runes_ascii_step byte_def)
  have l2: "4 < RuneCountInString (''n'' @ ellipsis_string @ ''tion'')"
    unfolding RuneCountInString_def r by simp
  show ?thesis
    using l1 l2 abbreviateString_spec[of "''abc''" 5]
      abbreviateString_spec[of "''n'' @ ellipsis_string @ ''tion''" 4]
    by auto
qed



section \<open>The sample environment, evaluated\<close>


lemma sample_env_sel:
  "url_Parse (sample_env s l) = Some"
  "url_JoinPath (sample_env s l) = (\<lambda>uri p. Inr (uri @ p))"
  "http_NewRequest (sample_env s l) = (\<lambda>m u. Inr (m, sample_url u))"
  "json_Marshal (sample_env s l) = sample_Marshal"
  "json_parse (sample_env s l) = sample_parse"
  "problem_of_json (sample_env s l) = sample_problem"
  "any_of_json (sample_env s l) = Some"
  "json_Unmarshal_out (sample_env s l) =
     (\<lambda>b. case sample_parse b of None \<Rightarrow> Inl ''invalid JSON'' | Some j \<Rightarrow> Inr j)"
  "format_value (sample_env s l) = sample_format"
  "StatusText (sample_env s l) = sample_StatusText"
  "os_WriteFile (sample_env s l) = (\<lambda>tr name b. None)"
  "client_Do (sample_env s l) = s"
  "login (sample_env s l) = l"
  "AddLocalAuthReqHeaders (sample_env s l) = (\<lambda>kvs h. addExplicit h kvs)"
  "http2curl (sample_env s l) = (\<lambda>req. [])"
  "FlagCurlifyRequests (sample_env s l) = False"
  by (simp_all add: sample_env_def)

lemma sample_parse_values:
  "sample_parse body_not_found
     = Some (JObject [(''status'', JNumber ''404''), (''title'', JString ''not found'')])"
  "sample_parse body_denied = Some (JObject [(''title'', JString ''denied'')])"
  "sample_parse body_ok = Some (JObject [(''ok'', JBool True)])"
  "sample_parse ''{}'' = Some (JObject [])"
  "sample_parse ''null'' = Some JNull"
  "sample_parse ''[1]'' = Some (JArray [JNumber ''1''])"
  "sample_parse body_bad_status = Some (JObject [(''status'', JString ''x'')])"
  "sample_parse [] = None"
  "sample_parse ''gateway down'' = None"
  by (simp_all add: sample_parse_def body_not_found_def body_denied_def body_id_def
      body_ok_def body_bad_status_def)

lemma sample_unmarshal:
  "json_Unmarshal_Problem (sample_env s l) body_not_found
     = Some \<lparr>Status = 404, Title = ''not found'', Detail = []\<rparr>"
  "json_Unmarshal_Problem (sample_env s l) body_denied
     = Some \<lparr>Status = 0, Title = ''denied'', Detail = []\<rparr>"
  "json_Unmarshal_Problem (sample_env s l) ''{}'' = Some \<lparr>Status = 0, Title = [], Detail = []\<rparr>"
  "json_Unmarshal_Problem (sample_env s l) ''null''
     = Some \<lparr>Status = 0, Title = [], Detail = []\<rparr>"
  "json_Unmarshal_Problem (sample_env s l) ''[1]'' = None"
  "json_Unmarshal_any (sample_env s l) ''[1]'' = Some (JArray [JNumber ''1''])"
  "json_Unmarshal_Problem (sample_env s l) [] = None"
  "json_Unmarshal_any (sample_env s l) [] = None"
  "json_Unmarshal_Problem (sample_env s l) ''gateway down'' = None"
  "json_Unmarshal_any (sample_env s l) ''gateway down'' = None"
  by (simp_all add: json_Unmarshal_Problem_def json_Unmarshal_any_def sample_env_sel
      sample_parse_values sample_problem_def)

lemma itoa_values: "itoa 500 = ''500''" "itoa 404 = ''404''" "itoa 403 = ''403''"
  by (simp_all add: itoa_def)

lemma sample_errors:
  "parseIntoError (sample_env s l) (respond 404 body_not_found) body_not_found
     = \<lparr>Message = ''Not Found'', StatusCode = 404,
        WrappedErr = Some \<lparr>Status = 404, Title = ''not found'', Detail = []\<rparr>\<rparr>"
  "parseIntoError (sample_env s l) (respond 403 body_denied) body_denied
     = \<lparr>Message = ''Forbidden'', StatusCode = 403,
        WrappedErr = Some \<lparr>Status = 403, Title = ''denied'', Detail = []\<rparr>\<rparr>"
  "parseIntoError (sample_env s l) (respond 500 ''[1]'') ''[1]''
     = \<lparr>Message = ''status 500, error response: [1]'', StatusCode = 500, WrappedErr = None\<rparr>"
  "parseIntoError (sample_env s l) (respond 500 []) []
     = \<lparr>Message = ''status: 500 Internal Server Error'', StatusCode = 500,
        WrappedErr = None\<rparr>"
  "parseIntoError (sample_env s l) (respond 500 ''gateway down'') ''gateway down''
     = \<lparr>Message = ''status: 500 gateway down'', StatusCode = 500, WrappedErr = None\<rparr>"
  by (simp_all add: parseIntoError_def sample_unmarshal sample_env_sel respond_def
      sample_StatusText_def sample_format_def itoa_values)


section \<open>Properties of the error classifier\<close>

text \<open>
  C3: for every response body and every status, \<^verbatim>\<open>parseIntoError\<close> returns a Status Error
  that carries the status code of the response; it has no failure of its own. It tries
  the decoding as a Problem first: when that succeeds the error wraps a Problem and its
  message is the standard status text, whatever the generic decoding would give. When
  it fails and the generic JSON decoding succeeds, the message renders the decoded
  value and nothing is wrapped. When both fail, the message holds the body as plain
  text, and the standard status text in place of an empty body. For every status that
  is neither 2xx nor 303 the executor returns exactly this Status Error.
\<close>

theorem parseIntoError_cascade:
  "StatusCode (parseIntoError E resp b) = RespStatusCode resp \<and>
   (\<forall>p. json_Unmarshal_Problem E b = Some p \<longrightarrow>
      WrappedErr (parseIntoError E resp b) \<noteq> None \<and>
      Message (parseIntoError E resp b) = StatusText E (RespStatusCode resp)) \<and>
   (\<forall>v. json_Unmarshal_Problem E b = None \<longrightarrow> json_Unmarshal_any E b = Some v \<longrightarrow>
      parseIntoError E resp b =
        \<lparr>Message = ''status '' @ itoa (RespStatusCode resp) @ '', error response: ''
                     @ format_value E v,
         StatusCode = RespStatusCode resp, WrappedErr = None\<rparr>) \<and>
   (json_Unmarshal_Problem E b = None \<longrightarrow> json_Unmarshal_any E b = None \<longrightarrow>
      parseIntoError E resp b =
        \<lparr>Message = ''status: '' @ itoa (RespStatusCode resp) @ '' ''
                     @ (if b = [] then StatusText E (RespStatusCode resp) else b),
         StatusCode = RespStatusCode resp, WrappedErr = None\<rparr>) \<and>
   (RespStatusCode resp div 100 \<noteq> 2 \<longrightarrow> RespStatusCode resp \<noteq> 303 \<longrightarrow>
      err (finish E meth options cfg resp b tr)
        = Return (Some (StatusError (parseIntoError E resp b))))"
  by (simp add: parseIntoError_def finish_def Let_def split: option.splits)


text \<open>
  The theorem at a Problem body, at a JSON array and at an empty body with status 500.
\<close>

theorem parseIntoError_cascade_witness:
  "json_Unmarshal_Problem (sample_env (server_always 500 []) login_fails) body_not_found
     = Some \<lparr>Status = 404, Title = ''not found'', Detail = []\<rparr> \<and>
   Message (parseIntoError (sample_env (server_always 500 []) login_fails)
              (respond 404 body_not_found) body_not_found) = ''Not Found'' \<and>
   json_Unmarshal_Problem (sample_env (server_always 500 []) login_fails) ''[1]'' = None \<and>
   json_Unmarshal_any (sample_env (server_always 500 []) login_fails) ''[1]''
     = Some (JArray [JNumber ''1'']) \<and>
   parseIntoError (sample_env (server_always 500 []) login_fails) (respond 500 ''[1]'') ''[1]''
     = \<lparr>Message = ''status 500, error response: [1]'', StatusCode = 500, WrappedErr = None\<rparr> \<and>
   json_Unmarshal_Problem (sample_env (server_always 500 []) login_fails) [] = None \<and>
   json_Unmarshal_any (sample_env (server_always 500 []) login_fails) [] = None \<and>
   parseIntoError (sample_env (server_always 500 []) login_fails) (respond 500 []) []
     = \<lparr>Message = ''status: 500 Internal Server Error'', StatusCode = 500,
        WrappedErr = None\<rparr> \<and>
   RespStatusCode (respond 500 []) div 100 \<noteq> 2 \<and> RespStatusCode (respond 500 []) \<noteq> 303 \<and>
   err (finish (sample_env (server_always 500 []) login_fails) ''GET'' emptyOptions
          (sample_config ''tok'') (respond 500 []) [] [])
     = Return (Some (StatusError \<lparr>Message = ''status: 500 Internal Server Error'',
                                   StatusCode = 500, WrappedErr = None\<rparr>))"
  using
    parseIntoError_cascade[of "sample_env (server_always 500 []) login_fails"
      "respond 404 body_not_found" body_not_found "''GET''" emptyOptions "sample_config ''tok''" "[]"]
    parseIntoError_cascade[of "sample_env (server_always 500 []) login_fails"
      "respond 500 ''[1]''" "''[1]''" "''GET''" emptyOptions "sample_config ''tok''" "[]"]
    parseIntoError_cascade[of "sample_env (server_always 500 []) login_fails"
      "respond 500 []" "[]" "''GET''" emptyOptions "sample_config ''tok''" "[]"]
  by (simp add: sample_unmarshal sample_errors sample_env_sel sample_StatusText_def
      sample_format_def itoa_values respond_def)


text \<open>
  C4: when the error body decodes as a Problem whose status is \<open>n \<noteq> 0\<close>, the Status
  Error wraps a Problem with status \<open>n\<close>; when the decoded status is zero (the field
  is omitted or zero in the body), the wrapped Problem has the status code of the HTTP
  response. The other fields of the Problem are kept, and the message of the Status
  Error is the standard status text of the response's code.
\<close>

theorem parseIntoError_problem_status:
  assumes "json_Unmarshal_Problem E b = Some p"
  shows "\<exists>q. WrappedErr (parseIntoError E resp b) = Some q \<and>
           (Status p \<noteq> 0 \<longrightarrow> Status q = Status p) \<and>
           (Status p = 0 \<longrightarrow> Status q = RespStatusCode resp) \<and>
           Title q = Title p \<and> Detail q = Detail p \<and>
           Message (parseIntoError E resp b) = StatusText E (RespStatusCode resp) \<and>
           StatusCode (parseIntoError E resp b) = RespStatusCode resp"
  using assms by (simp add: parseIntoError_def Let_def)


text \<open>
  The theorem at a body with status 404 in a response with code 500, and at a body
  with no status in a response with code 403.
\<close>

theorem parseIntoError_problem_status_witness:
  "json_Unmarshal_Problem (sample_env (server_always 404 body_not_found) login_fails)
     body_not_found = Some \<lparr>Status = 404, Title = ''not found'', Detail = []\<rparr> \<and>
   parseIntoError (sample_env (server_always 404 body_not_found) login_fails)
     (respond 500 body_not_found) body_not_found
     = \<lparr>Message = ''Internal Server Error'', StatusCode = 500,
        WrappedErr = Some \<lparr>Status = 404, Title = ''not found'', Detail = []\<rparr>\<rparr> \<and>
   json_Unmarshal_Problem (sample_env (server_always 404 body_not_found) login_fails)
     body_denied = Some \<lparr>Status = 0, Title = ''denied'', Detail = []\<rparr> \<and>
   parseIntoError (sample_env (server_always 404 body_not_found) login_fails)
     (respond 403 body_denied) body_denied
     = \<lparr>Message = ''Forbidden'', StatusCode = 403,
        WrappedErr = Some \<lparr>Status = 403, Title = ''denied'', Detail = []\<rparr>\<rparr>"
  using
    parseIntoError_problem_status[of "sample_env (server_always 404 body_not_found) login_fails"
      body_not_found "\<lparr>Status = 404, Title = ''not found'', Detail = []\<rparr>"
      "respond 500 body_not_found"]
    parseIntoError_problem_status[of "sample_env (server_always 404 body_not_found) login_fails"
      body_denied "\<lparr>Status = 0, Title = ''denied'', Detail = []\<rparr>" "respond 403 body_denied"]
  by (simp add: sample_unmarshal sample_errors parseIntoError_def sample_env_sel
      sample_StatusText_def respond_def)


lemma foldl_decodeMember_None: "foldl decodeMember None kvs = None"
  by (induction kvs) (simp_all add: decodeMember_def)

lemma decodeMember_fits: "decodeMember (Some p) kv \<noteq> None \<longleftrightarrow> fitsMember kv"
  by (simp add: decodeMember_def fitsMember_def storeInt_def storeString_def fitsInt_def
      fitsString_def split: json.splits)

lemma foldl_decodeMember_fits:
  "foldl decodeMember (Some p) kvs \<noteq> None \<longleftrightarrow> list_all fitsMember kvs"
proof (induction kvs arbitrary: p)
  case Nil
  show ?case by simp
next
  case (Cons kv kvs)
  show ?case
  proof (cases "decodeMember (Some p) kv")
    case None
    then show ?thesis
      using decodeMember_fits[of p kv] by (simp add: foldl_decodeMember_None)
  next
    case (Some q)
    then show ?thesis
      using decodeMember_fits[of p kv] Cons.IH[of q] by simp
  qed
qed

lemma Problem_of_json_shaped: "Problem_of_json j \<noteq> None \<longleftrightarrow> problemShaped j"
  by (cases j)
    (simp_all add: Problem_of_json_def problemShaped_def foldl_decodeMember_fits
      del: not_None_eq)

lemma selects_values:
  "selects ''status'' ''status''" "\<not> selects ''status'' ''title''"
  "\<not> selects ''status'' ''detail''" "\<not> selects ''title'' ''status''"
  "selects ''title'' ''title''" "\<not> selects ''title'' ''detail''"
  "selects ''Status'' ''status''"
  by (simp_all add: selects_def foldName_def foldRune_def runes_ascii_step byte_def)

lemma ParseInt_values:
  "ParseInt ''404'' = Some 404" "ParseInt ''-7'' = Some (- 7)" "ParseInt ''0'' = Some 0"
  "ParseInt ''1.0'' = None" "ParseInt ''1e2'' = None" "ParseInt ''-'' = None"
  "ParseInt ''9223372036854775807'' = Some 9223372036854775807"
  "ParseInt ''9223372036854775808'' = None"
  by (simp_all add: ParseInt_def digit_def Let_def)

lemma decoding_env_sel:
  "json_parse decoding_env = sample_parse"
  "problem_of_json decoding_env = Problem_of_json"
  "any_of_json decoding_env = Some"
  "format_value decoding_env = sample_format"
  "StatusText decoding_env = sample_StatusText"
  by (simp_all add: decoding_env_def sample_env_def)

text \<open>
  C9 as stated fails: the body \<^verbatim>\<open>{"status":"x"}\<close> is a well-formed JSON object, and
  decoding it into a Problem is a type error (a string for the numeric status), so
  that \<^verbatim>\<open>parseIntoError\<close> takes the branch of the generic JSON decoding and wraps no
  Problem.
\<close>

theorem string_status_is_generic:
  "json_parse decoding_env body_bad_status = Some (JObject [(''status'', JString ''x'')]) \<and>
   is_object (JObject [(''status'', JString ''x'')]) \<and>
   json_Unmarshal_Problem decoding_env body_bad_status = None \<and>
   parseIntoError decoding_env (respond 500 body_bad_status) body_bad_status
     = \<lparr>Message = ''status 500, error response: map[status:x]'', StatusCode = 500,
        WrappedErr = None\<rparr>"
  by (simp add: parseIntoError_def json_Unmarshal_Problem_def json_Unmarshal_any_def
      decoding_env_sel sample_parse_def body_bad_status_def body_not_found_def body_denied_def
      body_id_def body_ok_def is_object_def Problem_of_json_def decodeMember_def
      selects_values storeInt_def respond_def sample_format_def itoa_values)

text \<open>
  C9, amended: with the decoding into a Problem modelled as above, an error body that
  is well-formed JSON gives a Status Error that wraps a Problem exactly when its value
  is the literal \<^verbatim>\<open>null\<close> or an object in which every member named \<^verbatim>\<open>status\<close> is \<^verbatim>\<open>null\<close> or
  an integer literal of 64 bits and every member named \<^verbatim>\<open>title\<close> or \<^verbatim>\<open>detail\<close> is \<^verbatim>\<open>null\<close>
  or a string (names compared after case folding); the message is then the standard
  status text. This covers the empty object and every object none of whose members is
  named after a field. For every other well-formed value (an array, a string, a
  number, a boolean, or an object with a member of another kind under one of the three
  names, such as a string under \<^verbatim>\<open>status\<close>) nothing is wrapped, and the branch of the
  generic JSON decoding is taken when that decoding succeeds; this branch is taken for
  no value of the shape of a Problem.
\<close>

theorem parseIntoError_objects:
  assumes "problem_of_json E = Problem_of_json" and "json_parse E b = Some j"
  shows "(problemShaped j \<longrightarrow>
            (\<exists>p. WrappedErr (parseIntoError E resp b) = Some p) \<and>
            Message (parseIntoError E resp b) = StatusText E (RespStatusCode resp)) \<and>
         (\<not> problemShaped j \<longrightarrow>
            WrappedErr (parseIntoError E resp b) = None \<and>
            (\<forall>v. any_of_json E j = Some v \<longrightarrow>
               parseIntoError E resp b =
                 \<lparr>Message = ''status '' @ itoa (RespStatusCode resp)
                              @ '', error response: '' @ format_value E v,
                  StatusCode = RespStatusCode resp, WrappedErr = None\<rparr>)) \<and>
         (\<forall>v. json_Unmarshal_Problem E b = None \<longrightarrow> json_Unmarshal_any E b = Some v \<longrightarrow>
            \<not> problemShaped j) \<and>
         (j = JNull \<longrightarrow> problemShaped j) \<and>
         (\<forall>kvs. j = JObject kvs \<longrightarrow>
            (\<forall>kv\<in>set kvs. \<not> selects (fst kv) ''status'' \<and> \<not> selects (fst kv) ''title'' \<and>
                           \<not> selects (fst kv) ''detail'') \<longrightarrow>
            problemShaped j) \<and>
         (\<forall>kvs k v. j = JObject kvs \<longrightarrow> (k, v) \<in> set kvs \<longrightarrow>
            (selects k ''status'' \<and> \<not> fitsInt v) \<or>
            (selects k ''title'' \<and> \<not> fitsString v) \<or>
            (selects k ''detail'' \<and> \<not> fitsString v) \<longrightarrow>
            \<not> problemShaped j) \<and>
         (\<not> is_object j \<longrightarrow> j \<noteq> JNull \<longrightarrow> \<not> problemShaped j)"
proof -
  have dec: "json_Unmarshal_Problem E b = Problem_of_json j"
    using assms by (simp add: json_Unmarshal_Problem_def)
  have any: "json_Unmarshal_any E b = any_of_json E j"
    using assms by (simp add: json_Unmarshal_any_def)
  have c1: "problemShaped j \<longrightarrow>
            (\<exists>p. WrappedErr (parseIntoError E resp b) = Some p) \<and>
            Message (parseIntoError E resp b) = StatusText E (RespStatusCode resp)"
    using Problem_of_json_shaped[of j]
    by (auto simp add: parseIntoError_def dec Let_def)
  have c2: "\<not> problemShaped j \<longrightarrow>
            WrappedErr (parseIntoError E resp b) = None \<and>
            (\<forall>v. any_of_json E j = Some v \<longrightarrow>
               parseIntoError E resp b =
                 \<lparr>Message = ''status '' @ itoa (RespStatusCode resp)
                              @ '', error response: '' @ format_value E v,
                  StatusCode = RespStatusCode resp, WrappedErr = None\<rparr>)"
  proof (intro impI)
    assume "\<not> problemShaped j"
    then have "json_Unmarshal_Problem E b = None"
      using Problem_of_json_shaped[of j] by (simp add: dec)
    then show "WrappedErr (parseIntoError E resp b) = None \<and>
            (\<forall>v. any_of_json E j = Some v \<longrightarrow>
               parseIntoError E resp b =
                 \<lparr>Message = ''status '' @ itoa (RespStatusCode resp)
                              @ '', error response: '' @ format_value E v,
                  StatusCode = RespStatusCode resp, WrappedErr = None\<rparr>)"
      by (cases "any_of_json E j") (simp_all add: parseIntoError_def any Let_def)
  qed
  have c3: "\<forall>v. json_Unmarshal_Problem E b = None \<longrightarrow> json_Unmarshal_any E b = Some v \<longrightarrow>
            \<not> problemShaped j"
    using Problem_of_json_shaped[of j] by (auto simp add: dec)
  have c4: "j = JNull \<longrightarrow> problemShaped j"
    by (simp add: problemShaped_def)
  have c5: "\<forall>kvs. j = JObject kvs \<longrightarrow>
            (\<forall>kv\<in>set kvs. \<not> selects (fst kv) ''status'' \<and> \<not> selects (fst kv) ''title'' \<and>
                           \<not> selects (fst kv) ''detail'') \<longrightarrow>
            problemShaped j"
    by (simp add: problemShaped_def list_all_iff fitsMember_def)
  have c6: "\<forall>kvs k v. j = JObject kvs \<longrightarrow> (k, v) \<in> set kvs \<longrightarrow>
            (selects k ''status'' \<and> \<not> fitsInt v) \<or>
            (selects k ''title'' \<and> \<not> fitsString v) \<or>
            (selects k ''detail'' \<and> \<not> fitsString v) \<longrightarrow>
            \<not> problemShaped j"
  proof (intro allI impI)
    fix kvs k v
    assume j: "j = JObject kvs" and m: "(k, v) \<in> set kvs"
      and bad: "(selects k ''status'' \<and> \<not> fitsInt v) \<or>
                (selects k ''title'' \<and> \<not> fitsString v) \<or>
                (selects k ''detail'' \<and> \<not> fitsString v)"
    have "\<not> fitsMember (k, v)"
      using bad selects_values
      by (auto simp add: fitsMember_def selects_def)
    then show "\<not> problemShaped j"
      using j m by (auto simp add: problemShaped_def list_all_iff)
  qed
  have c7: "\<not> is_object j \<longrightarrow> j \<noteq> JNull \<longrightarrow> \<not> problemShaped j"
    by (cases j) (simp_all add: problemShaped_def is_object_def)
  show ?thesis
    using c1 c2 c3 c4 c5 c6 c7 by blast
qed

text \<open>
  The theorem at the empty object, at \<^verbatim>\<open>null\<close>, at a body with status and title, at an
  array and at an object with a string under \<^verbatim>\<open>status\<close>.
\<close>

theorem parseIntoError_objects_witness:
  "problem_of_json decoding_env = Problem_of_json \<and>
   json_parse decoding_env ''{}'' = Some (JObject []) \<and>
   problemShaped (JObject []) \<and>
   WrappedErr (parseIntoError decoding_env (respond 500 ''{}'') ''{}'')
     = Some \<lparr>Status = 500, Title = [], Detail = []\<rparr> \<and>
   json_parse decoding_env ''null'' = Some JNull \<and>
   WrappedErr (parseIntoError decoding_env (respond 500 ''null'') ''null'')
     = Some \<lparr>Status = 500, Title = [], Detail = []\<rparr> \<and>
   json_parse decoding_env body_not_found
     = Some (JObject [(''status'', JNumber ''404''), (''title'', JString ''not found'')]) \<and>
   problemShaped (JObject [(''status'', JNumber ''404''), (''title'', JString ''not found'')]) \<and>
   parseIntoError decoding_env (respond 500 body_not_found) body_not_found
     = \<lparr>Message = ''Internal Server Error'', StatusCode = 500,
        WrappedErr = Some \<lparr>Status = 404, Title = ''not found'', Detail = []\<rparr>\<rparr> \<and>
   json_parse decoding_env ''[1]'' = Some (JArray [JNumber ''1'']) \<and>
   \<not> problemShaped (JArray [JNumber ''1'']) \<and>
   parseIntoError decoding_env (respond 500 ''[1]'') ''[1]''
     = \<lparr>Message = ''status 500, error response: [1]'', StatusCode = 500, WrappedErr = None\<rparr> \<and>
   json_parse decoding_env body_bad_status = Some (JObject [(''status'', JString ''x'')]) \<and>
   selects ''status'' ''status'' \<and> \<not> fitsInt (JString ''x'') \<and>
   \<not> problemShaped (JObject [(''status'', JString ''x'')]) \<and>
   WrappedErr (parseIntoError decoding_env (respond 500 body_bad_status) body_bad_status)
     = None"
  using
    parseIntoError_objects[of decoding_env "''{}''" "JObject []" "respond 500 ''{}''"]
    parseIntoError_objects[of decoding_env "''null''" JNull "respond 500 ''null''"]
    parseIntoError_objects[of decoding_env body_not_found
      "JObject [(''status'', JNumber ''404''), (''title'', JString ''not found'')]"
      "respond 500 body_not_found"]
    parseIntoError_objects[of decoding_env "''[1]''" "JArray [JNumber ''1'']"
      "respond 500 ''[1]''"]
    parseIntoError_objects[of decoding_env body_bad_status
      "JObject [(''status'', JString ''x'')]" "respond 500 body_bad_status"]
  by (simp add: decoding_env_sel sample_parse_values parseIntoError_def
      json_Unmarshal_Problem_def json_Unmarshal_any_def Problem_of_json_def decodeMember_def
      selects_values storeInt_def storeString_def ParseInt_values fitsInt_def
      fitsString_def fitsMember_def problemShaped_def is_object_def respond_def
      sample_StatusText_def sample_format_def itoa_values Let_def)


section \<open>Properties of the request builder\<close>

lemma canonical_names:
  "CanonicalMIMEHeaderKey ''Content-Type'' = ''Content-Type''"
  "CanonicalMIMEHeaderKey ''Accept'' = ''Accept''"
  "CanonicalMIMEHeaderKey ''Authorization'' = ''Authorization''"
  "CanonicalMIMEHeaderKey ''content-type'' = ''Content-Type''"
  "CanonicalMIMEHeaderKey ''accept'' = ''Accept''"
  "CanonicalMIMEHeaderKey ''appd-pid'' = ''Appd-Pid''"
  "CanonicalMIMEHeaderKey ''Appd-Pid'' = ''Appd-Pid''"
  by (simp_all add: CanonicalMIMEHeaderKey_def validHeaderFieldByte_def byte_def Let_def
      toUpper_def toLower_def)

lemma headerValues_headerAdd:
  "headerValues (headerAdd h k v) K =
     (if CanonicalMIMEHeaderKey k = K then headerValues h K @ [v] else headerValues h K)"
  by (simp add: headerValues_def headerAdd_def Let_def update_conv')

lemma headerValues_addExplicit:
  "headerValues (addExplicit h kvs) K =
     headerValues h K @ map snd (filter (\<lambda>kv. CanonicalMIMEHeaderKey (fst kv) = K) kvs)"
  unfolding addExplicit_def
  by (induction kvs arbitrary: h) (simp_all add: headerValues_headerAdd)

lemma headerValues_Nil: "headerValues [] K = []"
  by (simp add: headerValues_def)

lemma lookupHeader_None: "lookupHeader None k = []"
  by (simp add: lookupHeader_def)

lemma headerValues_synthesizedHeaders:
  "headerValues (synthesizedHeaders meth token jsonify hdrs) K =
     (if jsonify \<and> K = ''Content-Type''
      then [if meth = ''PATCH'' then ''application/merge-patch+json'' else ''application/json'']
      else []) @
     (if lookupHeader hdrs ''Accept'' = [] \<and> K = ''Accept'' then [''application/json'']
      else []) @
     (if lookupHeader hdrs ''Authorization'' = [] \<and> K = ''Authorization''
      then [''Bearer '' @ token] else [])"
  by (cases hdrs)
    (auto simp add: synthesizedHeaders_def Let_def headerValues_headerAdd headerValues_Nil
      canonical_names lookupHeader_None)

lemma prepared_Header:
  assumes "prepareHTTPRequest E cfg meth path body hdrs = Prepared req"
  shows "Header req =
    requestHeaders E cfg meth (body \<noteq> None \<and> lookupHeader hdrs ''Content-Type'' = []) hdrs"
  using assms
  by (cases hdrs)
    (auto simp add: prepareHTTPRequest_def getCurlCommandOfRequest_def Let_def lookupHeader_None
      split: option.splits sum.splits prod.splits if_splits body.splits)

lemma sample_prepare:
  assumes "URL cfg = ''https://h''"
  shows "prepareHTTPRequest (sample_env s l) cfg meth ''/x'' body hdrs =
     (if body \<noteq> None \<and> lookupHeader hdrs ''Content-Type'' = []
      then (case sample_Marshal body of
              Inl e \<Rightarrow> Failed (MarshalFailed e)
            | Inr bs \<Rightarrow>
                Prepared \<lparr>Method = meth,
                          ReqURL = \<lparr>Path = ''/x'', RawQuery = [],
                                    UrlString = ''https://h/x''\<rparr>,
                          Header = requestHeaders (sample_env s l) cfg meth True hdrs,
                          Body = Some bs\<rparr>)
      else (case body of
              Some (Value v) \<Rightarrow> Failed BodyTypeBug
            | Some (ByteSlice bs) \<Rightarrow>
                Prepared \<lparr>Method = meth,
                          ReqURL = \<lparr>Path = ''/x'', RawQuery = [],
                                    UrlString = ''https://h/x''\<rparr>,
                          Header = requestHeaders (sample_env s l) cfg meth False hdrs,
                          Body = Some bs\<rparr>
            | None \<Rightarrow>
                Prepared \<lparr>Method = meth,
                          ReqURL = \<lparr>Path = ''/x'', RawQuery = [],
                                    UrlString = ''https://h/x''\<rparr>,
                          Header = requestHeaders (sample_env s l) cfg meth False hdrs,
                          Body = None\<rparr>))"
  using assms
  by (cases hdrs)
    (auto simp add: prepareHTTPRequest_def sample_env_sel Let_def cut_query_def sample_url_def
      lookupHeader_None split: sum.splits option.splits body.splits)

lemma sample_config_sel:
  "URL (sample_config t) = ''https://h''" "Token (sample_config t) = t"
  "AuthMethod (sample_config t) = ''oauth''" "LocalAuthOptions (sample_config t) = []"
  "URL local_config = ''https://h''" "Token local_config = ''tok''"
  "AuthMethod local_config = ''local''" "LocalAuthOptions local_config = [(''appd-pid'', ''p1'')]"
  by (simp_all add: sample_config_def local_config_def)

lemma lookupHeader_Some:
  "lookupHeader (Some kvs) k = (case map_of kvs k of None \<Rightarrow> [] | Some v \<Rightarrow> v)"
  by (simp add: lookupHeader_def)

lemma curl_keeps_request: "\<exists>c. getCurlCommandOfRequest E req = (Inr c, req)"
  by (simp add: getCurlCommandOfRequest_def Let_def split: option.splits)

lemma prepare_bytes:
  assumes "lookupHeader hdrs ''Content-Type'' \<noteq> []"
  shows "prepareHTTPRequest E cfg meth path (Some (ByteSlice bs)) hdrs =
     (case url_Parse E (URL cfg) of
        None \<Rightarrow> Fatal
      | Some uri \<Rightarrow>
          (case url_JoinPath E uri (fst (cut_query path)) of
             Inl e \<Rightarrow> Failed (CreateRequestFailed uri e)
           | Inr joined \<Rightarrow>
               (case http_NewRequest E meth
                       (if snd (cut_query path) = [] then joined
                        else joined @ ''?'' @ snd (cut_query path)) of
                  Inl e \<Rightarrow> Failed (CreateRequestFailed uri e)
                | Inr (m, u) \<Rightarrow>
                    Prepared \<lparr>Method = m, ReqURL = u,
                              Header = requestHeaders E cfg meth False hdrs,
                              Body = Some bs\<rparr>)))"
proof -
  obtain kvs where h: "hdrs = Some kvs"
    using assms by (cases hdrs) (simp_all add: lookupHeader_None)
  have curl: "\<And>req. (case getCurlCommandOfRequest E req of
                        (Inl e, _) \<Rightarrow> Failed (CurlFailed e)
                      | (Inr curlCommand, req') \<Rightarrow> Prepared req') = Prepared req"
  proof -
    fix req
    obtain c where "getCurlCommandOfRequest E req = (Inr c, req)"
      using curl_keeps_request[of E req] by blast
    then show "(case getCurlCommandOfRequest E req of
                        (Inl e, _) \<Rightarrow> Failed (CurlFailed e)
                      | (Inr curlCommand, req') \<Rightarrow> Prepared req') = Prepared req"
      by simp
  qed
  show ?thesis
    using assms h
    by (simp add: prepareHTTPRequest_def Let_def curl
        split: option.splits sum.splits prod.splits)
qed

text \<open>
  C5 as stated fails: a caller who gives the header under the key \<^verbatim>\<open>content-type\<close> has
  given a Content-Type that is not empty (the request carries it under \<^verbatim>\<open>Content-Type\<close>),
  yet line 106 reads the key \<^verbatim>\<open>Content-Type\<close> only, finds nothing, and the body that is
  not a \<^verbatim>\<open>[]byte\<close> is not refused: it is JSON-encoded and sent, after the synthesized
  \<^verbatim>\<open>Content-Type: application/json\<close>.
\<close>

theorem lowercase_content_type_is_encoded:
  "prepareHTTPRequest (sample_env (server_always 200 []) login_fails) (sample_config ''tok'')
     ''POST'' ''/x'' (Some (Value body_x)) (Some [(''content-type'', ''text/plain'')])
     = Prepared \<lparr>Method = ''POST'',
                 ReqURL = \<lparr>Path = ''/x'', RawQuery = [], UrlString = ''https://h/x''\<rparr>,
                 Header = [(''Content-Type'', [''application/json'', ''text/plain'']),
                           (''Accept'', [''application/json'']),
                           (''Authorization'', [''Bearer tok''])],
                 Body = Some body_x\<rparr>"
  by (simp add: sample_prepare sample_config_sel lookupHeader_Some requestHeaders_def
      synthesizedHeaders_def headerAdd_def headerValues_def canonical_names AuthMethodLocal_def
      addExplicit_def headerEntries_def Let_def sample_env_sel sample_Marshal_def)

text \<open>
  C5, amended: for every request with a body that is not nil and a non-empty entry
  under exactly the key \<^verbatim>\<open>Content-Type\<close> in the caller's headers, \<^verbatim>\<open>prepareHTTPRequest\<close>
  fails with the construction error for a wrong body type whenever the body is not a
  \<^verbatim>\<open>[]byte\<close>, whatever the collaborators do. When the body is a \<^verbatim>\<open>[]byte\<close>, the JSON
  encoder is not used: the preparation fails neither with the error for a wrong body
  type nor with a marshalling error nor with an error of the curl rendering, every
  request that is built has exactly the caller's bytes as its body and no synthesized
  \<^verbatim>\<open>Content-Type\<close>, and a request is built whenever the base URL parses, the path joins
  and the request constructor accepts the method and the URL.
\<close>

theorem prepareHTTPRequest_explicit_content_type:
  assumes "body = Some b" and "lookupHeader hdrs ''Content-Type'' \<noteq> []"
  shows "(\<forall>v. b = Value v \<longrightarrow>
            prepareHTTPRequest E cfg meth path body hdrs = Failed BodyTypeBug) \<and>
         (\<forall>bs. b = ByteSlice bs \<longrightarrow>
            prepareHTTPRequest E cfg meth path body hdrs \<noteq> Failed BodyTypeBug \<and>
            (\<forall>e. prepareHTTPRequest E cfg meth path body hdrs \<noteq> Failed (MarshalFailed e)) \<and>
            (\<forall>e. prepareHTTPRequest E cfg meth path body hdrs \<noteq> Failed (CurlFailed e)) \<and>
            (\<forall>req. prepareHTTPRequest E cfg meth path body hdrs = Prepared req \<longrightarrow>
               Body req = Some bs \<and>
               Header req = requestHeaders E cfg meth False hdrs) \<and>
            (\<forall>uri joined m u.
               url_Parse E (URL cfg) = Some uri \<longrightarrow>
               url_JoinPath E uri (fst (cut_query path)) = Inr joined \<longrightarrow>
               http_NewRequest E meth
                 (if snd (cut_query path) = [] then joined
                  else joined @ ''?'' @ snd (cut_query path)) = Inr (m, u) \<longrightarrow>
               (\<exists>req. prepareHTTPRequest E cfg meth path body hdrs = Prepared req \<and>
                      Method req = m \<and> ReqURL req = u \<and> Body req = Some bs)))"
proof -
  have c1: "\<forall>v. b = Value v \<longrightarrow>
            prepareHTTPRequest E cfg meth path body hdrs = Failed BodyTypeBug"
    using assms by (cases hdrs) (simp_all add: lookupHeader_None prepareHTTPRequest_def Let_def)
  have c2: "\<forall>bs. b = ByteSlice bs \<longrightarrow>
            prepareHTTPRequest E cfg meth path body hdrs \<noteq> Failed BodyTypeBug \<and>
            (\<forall>e. prepareHTTPRequest E cfg meth path body hdrs \<noteq> Failed (MarshalFailed e)) \<and>
            (\<forall>e. prepareHTTPRequest E cfg meth path body hdrs \<noteq> Failed (CurlFailed e)) \<and>
            (\<forall>req. prepareHTTPRequest E cfg meth path body hdrs = Prepared req \<longrightarrow>
               Body req = Some bs \<and>
               Header req = requestHeaders E cfg meth False hdrs) \<and>
            (\<forall>uri joined m u.
               url_Parse E (URL cfg) = Some uri \<longrightarrow>
               url_JoinPath E uri (fst (cut_query path)) = Inr joined \<longrightarrow>
               http_NewRequest E meth
                 (if snd (cut_query path) = [] then joined
                  else joined @ ''?'' @ snd (cut_query path)) = Inr (m, u) \<longrightarrow>
               (\<exists>req. prepareHTTPRequest E cfg meth path body hdrs = Prepared req \<and>
                      Method req = m \<and> ReqURL req = u \<and> Body req = Some bs))"
  proof (intro allI impI)
    fix bs
    assume "b = ByteSlice bs"
    then have p: "prepareHTTPRequest E cfg meth path body hdrs =
        prepareHTTPRequest E cfg meth path (Some (ByteSlice bs)) hdrs"
      using assms(1) by simp
    show "prepareHTTPRequest E cfg meth path body hdrs \<noteq> Failed BodyTypeBug \<and>
            (\<forall>e. prepareHTTPRequest E cfg meth path body hdrs \<noteq> Failed (MarshalFailed e)) \<and>
            (\<forall>e. prepareHTTPRequest E cfg meth path body hdrs \<noteq> Failed (CurlFailed e)) \<and>
            (\<forall>req. prepareHTTPRequest E cfg meth path body hdrs = Prepared req \<longrightarrow>
               Body req = Some bs \<and>
               Header req = requestHeaders E cfg meth False hdrs) \<and>
            (\<forall>uri joined m u.
               url_Parse E (URL cfg) = Some uri \<longrightarrow>
               url_JoinPath E uri (fst (cut_query path)) = Inr joined \<longrightarrow>
               http_NewRequest E meth
                 (if snd (cut_query path) = [] then joined
                  else joined @ ''?'' @ snd (cut_query path)) = Inr (m, u) \<longrightarrow>
               (\<exists>req. prepareHTTPRequest E cfg meth path body hdrs = Prepared req \<and>
                      Method req = m \<and> ReqURL req = u \<and> Body req = Some bs))"
      unfolding p prepare_bytes[OF assms(2)]
      by (simp split: option.splits sum.splits prod.splits)
  qed
  show ?thesis
    using c1 c2 by blast
qed

text \<open>
  The theorem at a POST with the header \<^verbatim>\<open>Content-Type: text/plain\<close>: a body that is
  not a byte slice is refused, a byte slice is sent as it is.
\<close>

theorem prepareHTTPRequest_explicit_content_type_witness:
  "lookupHeader (Some [(''Content-Type'', ''text/plain'')]) ''Content-Type'' \<noteq> [] \<and>
   prepareHTTPRequest (sample_env (server_always 200 []) login_fails) (sample_config ''tok'')
     ''POST'' ''/x'' (Some (Value body_x)) (Some [(''Content-Type'', ''text/plain'')])
     = Failed BodyTypeBug \<and>
   prepareHTTPRequest (sample_env (server_always 200 []) login_fails) (sample_config ''tok'')
     ''POST'' ''/x'' (Some (ByteSlice ''raw bytes'')) (Some [(''Content-Type'', ''text/plain'')])
     = Prepared \<lparr>Method = ''POST'',
                 ReqURL = \<lparr>Path = ''/x'', RawQuery = [], UrlString = ''https://h/x''\<rparr>,
                 Header = [(''Accept'', [''application/json'']),
                           (''Authorization'', [''Bearer tok'']),
                           (''Content-Type'', [''text/plain''])],
                 Body = Some ''raw bytes''\<rparr>"
  using
    prepareHTTPRequest_explicit_content_type[of "Some (Value body_x)" "Value body_x"
      "Some [(''Content-Type'', ''text/plain'')]"
      "sample_env (server_always 200 []) login_fails" "sample_config ''tok''" "''POST''" "''/x''"]
    prepareHTTPRequest_explicit_content_type[of "Some (ByteSlice ''raw bytes'')"
      "ByteSlice ''raw bytes''" "Some [(''Content-Type'', ''text/plain'')]"
      "sample_env (server_always 200 []) login_fails" "sample_config ''tok''" "''POST''" "''/x''"]
  by (simp add: sample_prepare sample_config_sel lookupHeader_Some requestHeaders_def
      synthesizedHeaders_def headerAdd_def headerValues_def canonical_names AuthMethodLocal_def
      addExplicit_def headerEntries_def Let_def)

text \<open>
  C6 as stated fails: a caller who supplies the header \<^verbatim>\<open>accept: text/html\<close> gets a
  request whose \<^verbatim>\<open>Accept\<close> header holds the synthesized value first and the caller's
  value second, so that \<^verbatim>\<open>Header.Get\<close> gives the synthesized one; and with local auth
  that adds the header \<^verbatim>\<open>Appd-Pid\<close>, the caller's value for that header comes second
  too.
\<close>

theorem lowercase_accept_does_not_override:
  "prepareHTTPRequest (sample_env (server_always 200 []) login_fails) (sample_config ''tok'')
     ''GET'' ''/x'' None (Some [(''accept'', ''text/html'')])
     = Prepared \<lparr>Method = ''GET'',
                 ReqURL = \<lparr>Path = ''/x'', RawQuery = [], UrlString = ''https://h/x''\<rparr>,
                 Header = [(''Accept'', [''application/json'', ''text/html'']),
                           (''Authorization'', [''Bearer tok''])],
                 Body = None\<rparr> \<and>
   headerGet [(''Accept'', [''application/json'', ''text/html'']),
              (''Authorization'', [''Bearer tok''])] ''Accept'' = ''application/json'' \<and>
   prepareHTTPRequest (sample_env (server_always 200 []) login_fails) local_config
     ''GET'' ''/x'' None (Some [(''Appd-Pid'', ''mine'')])
     = Prepared \<lparr>Method = ''GET'',
                 ReqURL = \<lparr>Path = ''/x'', RawQuery = [], UrlString = ''https://h/x''\<rparr>,
                 Header = [(''Accept'', [''application/json'']),
                           (''Authorization'', [''Bearer tok'']),
                           (''Appd-Pid'', [''p1'', ''mine''])],
                 Body = None\<rparr> \<and>
   headerGet [(''Accept'', [''application/json'']), (''Authorization'', [''Bearer tok'']),
              (''Appd-Pid'', [''p1'', ''mine''])] ''Appd-Pid'' = ''p1''"
  by (simp add: sample_prepare sample_config_sel lookupHeader_Some requestHeaders_def
      synthesizedHeaders_def headerAdd_def headerValues_def headerGet_def canonical_names
      AuthMethodLocal_def addExplicit_def headerEntries_def Let_def sample_env_sel)

lemma single_entry:
  "distinct (map fst kvs) \<Longrightarrow> map_of kvs K = Some v
     \<Longrightarrow> map snd (filter (\<lambda>kv. fst kv = K) kvs) = [v]"
proof (induction kvs)
  case Nil
  then show ?case by simp
next
  case (Cons a kvs)
  show ?case
  proof (cases "fst a = K")
    case True
    then have "filter (\<lambda>kv. fst kv = K) kvs = []"
      using Cons.prems(1) by (auto simp add: filter_empty_conv image_iff)
    then show ?thesis
      using True Cons.prems(2) by (cases a) simp
  next
    case False
    then show ?thesis
      using Cons by (cases a) simp
  qed
qed

text \<open>
  C6, amended: for every request built by \<^verbatim>\<open>prepareHTTPRequest\<close> and every header name,
  the values under that name are, in this order: the synthesized value, as changed
  by the local-auth augmentation when the auth method is local, and then the values of
  all the caller's entries whose canonical name it is, in the order in which the map
  is visited. The synthesized values are \<^verbatim>\<open>Content-Type\<close> (\<^verbatim>\<open>application/json\<close>, or
  \<^verbatim>\<open>application/merge-patch+json\<close> for PATCH) only when a body is given and the caller's
  map has no non-empty entry under exactly \<^verbatim>\<open>Content-Type\<close>; \<^verbatim>\<open>Accept: application/json\<close>
  only when it has none under exactly \<^verbatim>\<open>Accept\<close>; and \<^verbatim>\<open>Authorization: Bearer\<close> with the
  credential only when it has none under exactly \<^verbatim>\<open>Authorization\<close>. So when the auth
  method is not local and the caller's map has a non-empty entry under exactly one of
  these three names, the values of that header are the caller's alone: the values of
  all the entries with that canonical name, which is the one value of that entry when
  no entry has the name in another spelling.
\<close>

theorem request_header_values:
  assumes "prepareHTTPRequest E cfg meth path body hdrs = Prepared req"
  shows "headerValues (Header req) K =
           headerValues
             (if AuthMethod cfg = AuthMethodLocal
              then AddLocalAuthReqHeaders E (LocalAuthOptions cfg)
                     (synthesizedHeaders meth (Token cfg)
                        (body \<noteq> None \<and> lookupHeader hdrs ''Content-Type'' = []) hdrs)
              else synthesizedHeaders meth (Token cfg)
                     (body \<noteq> None \<and> lookupHeader hdrs ''Content-Type'' = []) hdrs) K
           @ map snd (filter (\<lambda>kv. CanonicalMIMEHeaderKey (fst kv) = K) (headerEntries hdrs)) \<and>
         headerValues (synthesizedHeaders meth (Token cfg)
                         (body \<noteq> None \<and> lookupHeader hdrs ''Content-Type'' = []) hdrs) K =
           (if body \<noteq> None \<and> lookupHeader hdrs ''Content-Type'' = [] \<and> K = ''Content-Type''
            then [if meth = ''PATCH'' then ''application/merge-patch+json''
                  else ''application/json'']
            else []) @
           (if lookupHeader hdrs ''Accept'' = [] \<and> K = ''Accept'' then [''application/json'']
            else []) @
           (if lookupHeader hdrs ''Authorization'' = [] \<and> K = ''Authorization''
            then [''Bearer '' @ Token cfg] else []) \<and>
         (AuthMethod cfg \<noteq> AuthMethodLocal \<longrightarrow> lookupHeader hdrs K \<noteq> [] \<longrightarrow>
          K \<in> {''Content-Type'', ''Accept'', ''Authorization''} \<longrightarrow>
            headerValues (Header req) K =
              map snd (filter (\<lambda>kv. CanonicalMIMEHeaderKey (fst kv) = K) (headerEntries hdrs))) \<and>
         (AuthMethod cfg \<noteq> AuthMethodLocal \<longrightarrow> lookupHeader hdrs K \<noteq> [] \<longrightarrow>
          K \<in> {''Content-Type'', ''Accept'', ''Authorization''} \<longrightarrow>
          distinct (map fst (headerEntries hdrs)) \<longrightarrow>
          (\<forall>kv\<in>set (headerEntries hdrs). CanonicalMIMEHeaderKey (fst kv) = K \<longrightarrow> fst kv = K) \<longrightarrow>
            headerValues (Header req) K = [lookupHeader hdrs K])"
proof -
  have c123: "headerValues (Header req) K =
           headerValues
             (if AuthMethod cfg = AuthMethodLocal
              then AddLocalAuthReqHeaders E (LocalAuthOptions cfg)
                     (synthesizedHeaders meth (Token cfg)
                        (body \<noteq> None \<and> lookupHeader hdrs ''Content-Type'' = []) hdrs)
              else synthesizedHeaders meth (Token cfg)
                     (body \<noteq> None \<and> lookupHeader hdrs ''Content-Type'' = []) hdrs) K
           @ map snd (filter (\<lambda>kv. CanonicalMIMEHeaderKey (fst kv) = K) (headerEntries hdrs)) \<and>
         headerValues (synthesizedHeaders meth (Token cfg)
                         (body \<noteq> None \<and> lookupHeader hdrs ''Content-Type'' = []) hdrs) K =
           (if body \<noteq> None \<and> lookupHeader hdrs ''Content-Type'' = [] \<and> K = ''Content-Type''
            then [if meth = ''PATCH'' then ''application/merge-patch+json''
                  else ''application/json'']
            else []) @
           (if lookupHeader hdrs ''Accept'' = [] \<and> K = ''Accept'' then [''application/json'']
            else []) @
           (if lookupHeader hdrs ''Authorization'' = [] \<and> K = ''Authorization''
            then [''Bearer '' @ Token cfg] else []) \<and>
         (AuthMethod cfg \<noteq> AuthMethodLocal \<longrightarrow> lookupHeader hdrs K \<noteq> [] \<longrightarrow>
          K \<in> {''Content-Type'', ''Accept'', ''Authorization''} \<longrightarrow>
            headerValues (Header req) K =
              map snd (filter (\<lambda>kv. CanonicalMIMEHeaderKey (fst kv) = K) (headerEntries hdrs)))"
    unfolding prepared_Header[OF assms]
    by (auto simp add: requestHeaders_def Let_def headerValues_addExplicit
        headerValues_synthesizedHeaders)
  have c4: "AuthMethod cfg \<noteq> AuthMethodLocal \<longrightarrow> lookupHeader hdrs K \<noteq> [] \<longrightarrow>
          K \<in> {''Content-Type'', ''Accept'', ''Authorization''} \<longrightarrow>
          distinct (map fst (headerEntries hdrs)) \<longrightarrow>
          (\<forall>kv\<in>set (headerEntries hdrs). CanonicalMIMEHeaderKey (fst kv) = K \<longrightarrow> fst kv = K) \<longrightarrow>
            headerValues (Header req) K = [lookupHeader hdrs K]"
  proof (intro impI)
    assume nl: "AuthMethod cfg \<noteq> AuthMethodLocal" and ne: "lookupHeader hdrs K \<noteq> []"
      and K: "K \<in> {''Content-Type'', ''Accept'', ''Authorization''}"
      and d: "distinct (map fst (headerEntries hdrs))"
      and sp: "\<forall>kv\<in>set (headerEntries hdrs). CanonicalMIMEHeaderKey (fst kv) = K \<longrightarrow> fst kv = K"
    obtain kvs where hs: "hdrs = Some kvs"
      using ne by (cases hdrs) (auto simp add: lookupHeader_None)
    have m: "map_of kvs K = Some (lookupHeader hdrs K)"
      using ne hs by (cases "map_of kvs K") (simp_all add: lookupHeader_Some)
    have cK: "CanonicalMIMEHeaderKey K = K"
      using K canonical_names by auto
    have "filter (\<lambda>kv. CanonicalMIMEHeaderKey (fst kv) = K) kvs = filter (\<lambda>kv. fst kv = K) kvs"
      using sp hs cK by (intro filter_cong) (auto simp add: headerEntries_def)
    then have one: "map snd (filter (\<lambda>kv. CanonicalMIMEHeaderKey (fst kv) = K)
                                (headerEntries hdrs)) = [lookupHeader hdrs K]"
      using single_entry[of kvs K "lookupHeader hdrs K"] d m hs
      by (simp add: headerEntries_def)
    have "headerValues (Header req) K =
            map snd (filter (\<lambda>kv. CanonicalMIMEHeaderKey (fst kv) = K) (headerEntries hdrs))"
      using c123 nl ne K by blast
    then show "headerValues (Header req) K = [lookupHeader hdrs K]"
      using one by simp
  qed
  show ?thesis
    using c123 c4 by blast
qed

text \<open>
  The theorem at a PATCH with local auth, the caller's \<^verbatim>\<open>Accept\<close> and a caller's header
  of the name of a local-auth header (whose value comes second), at a GET whose
  \<^verbatim>\<open>Accept\<close> is the caller's alone, and at a GET whose caller gives \<^verbatim>\<open>Accept\<close> in two
  spellings, both of which are sent.
\<close>

theorem request_header_values_witness:
  "prepareHTTPRequest (sample_env (server_always 200 []) login_fails) local_config
     ''PATCH'' ''/x'' (Some (Value body_x))
     (Some [(''Accept'', ''text/html''), (''appd-pid'', ''mine'')])
     = Prepared \<lparr>Method = ''PATCH'',
                 ReqURL = \<lparr>Path = ''/x'', RawQuery = [], UrlString = ''https://h/x''\<rparr>,
                 Header = [(''Content-Type'', [''application/merge-patch+json'']),
                           (''Authorization'', [''Bearer tok'']),
                           (''Appd-Pid'', [''p1'', ''mine'']),
                           (''Accept'', [''text/html''])],
                 Body = Some body_x\<rparr> \<and>
   headerValues [(''Content-Type'', [''application/merge-patch+json'']),
                 (''Authorization'', [''Bearer tok'']),
                 (''Appd-Pid'', [''p1'', ''mine'']),
                 (''Accept'', [''text/html''])] ''Appd-Pid'' = [''p1'', ''mine''] \<and>
   prepareHTTPRequest (sample_env (server_always 200 []) login_fails) (sample_config ''tok'')
     ''GET'' ''/x'' None (Some [(''Accept'', ''text/html'')])
     = Prepared \<lparr>Method = ''GET'',
                 ReqURL = \<lparr>Path = ''/x'', RawQuery = [], UrlString = ''https://h/x''\<rparr>,
                 Header = [(''Authorization'', [''Bearer tok'']), (''Accept'', [''text/html''])],
                 Body = None\<rparr> \<and>
   AuthMethod (sample_config ''tok'') \<noteq> AuthMethodLocal \<and>
   lookupHeader (Some [(''Accept'', ''text/html'')]) ''Accept'' \<noteq> [] \<and>
   distinct (map fst (headerEntries (Some [(''Accept'', ''text/html'')]))) \<and>
   headerValues [(''Authorization'', [''Bearer tok'']), (''Accept'', [''text/html''])] ''Accept''
     = [''text/html''] \<and>
   prepareHTTPRequest (sample_env (server_always 200 []) login_fails) (sample_config ''tok'')
     ''GET'' ''/x'' None (Some [(''Accept'', ''text/html''), (''accept'', ''text/plain'')])
     = Prepared \<lparr>Method = ''GET'',
                 ReqURL = \<lparr>Path = ''/x'', RawQuery = [], UrlString = ''https://h/x''\<rparr>,
                 Header = [(''Authorization'', [''Bearer tok'']),
                           (''Accept'', [''text/html'', ''text/plain''])],
                 Body = None\<rparr> \<and>
   lookupHeader (Some [(''Accept'', ''text/html''), (''accept'', ''text/plain'')]) ''Accept''
     \<noteq> [] \<and>
   headerValues [(''Authorization'', [''Bearer tok'']),
                 (''Accept'', [''text/html'', ''text/plain''])] ''Accept''
     = [''text/html'', ''text/plain'']"
proof -
  have p1: "prepareHTTPRequest (sample_env (server_always 200 []) login_fails) local_config
     ''PATCH'' ''/x'' (Some (Value body_x))
     (Some [(''Accept'', ''text/html''), (''appd-pid'', ''mine'')])
     = Prepared \<lparr>Method = ''PATCH'',
                 ReqURL = \<lparr>Path = ''/x'', RawQuery = [], UrlString = ''https://h/x''\<rparr>,
                 Header = [(''Content-Type'', [''application/merge-patch+json'']),
                           (''Authorization'', [''Bearer tok'']),
                           (''Appd-Pid'', [''p1'', ''mine'']),
                           (''Accept'', [''text/html''])],
                 Body = Some body_x\<rparr>"
    by (simp add: sample_prepare sample_config_sel lookupHeader_Some requestHeaders_def
        synthesizedHeaders_def headerAdd_def headerValues_def canonical_names
        AuthMethodLocal_def addExplicit_def headerEntries_def Let_def sample_env_sel
        sample_Marshal_def)
  have p2: "prepareHTTPRequest (sample_env (server_always 200 []) login_fails)
     (sample_config ''tok'') ''GET'' ''/x'' None (Some [(''Accept'', ''text/html'')])
     = Prepared \<lparr>Method = ''GET'',
                 ReqURL = \<lparr>Path = ''/x'', RawQuery = [], UrlString = ''https://h/x''\<rparr>,
                 Header = [(''Authorization'', [''Bearer tok'']), (''Accept'', [''text/html''])],
                 Body = None\<rparr>"
    by (simp add: sample_prepare sample_config_sel lookupHeader_Some requestHeaders_def
        synthesizedHeaders_def headerAdd_def headerValues_def canonical_names
        AuthMethodLocal_def addExplicit_def headerEntries_def Let_def)
  have p3: "prepareHTTPRequest (sample_env (server_always 200 []) login_fails)
     (sample_config ''tok'') ''GET'' ''/x'' None
     (Some [(''Accept'', ''text/html''), (''accept'', ''text/plain'')])
     = Prepared \<lparr>Method = ''GET'',
                 ReqURL = \<lparr>Path = ''/x'', RawQuery = [], UrlString = ''https://h/x''\<rparr>,
                 Header = [(''Authorization'', [''Bearer tok'']),
                           (''Accept'', [''text/html'', ''text/plain''])],
                 Body = None\<rparr>"
    by (simp add: sample_prepare sample_config_sel lookupHeader_Some requestHeaders_def
        synthesizedHeaders_def headerAdd_def headerValues_def canonical_names
        AuthMethodLocal_def addExplicit_def headerEntries_def Let_def)
  show ?thesis
    using request_header_values[OF p1, of "''Appd-Pid''"]
      request_header_values[OF p2, of "''Accept''"]
      request_header_values[OF p3, of "''Accept''"]
    by (simp add: p1 p2 p3 sample_config_sel AuthMethodLocal_def lookupHeader_Some
        headerValues_def headerEntries_def)
qed


section \<open>Properties of the request executor\<close>

lemma abbreviateString_no_panic: "abbreviateString s n \<noteq> Panic"
  by (auto simp add: abbreviateString_def RuneCountInString_def Let_def)

lemma urlDisplayPath_no_panic: "urlDisplayPath u \<noteq> Panic"
  using abbreviateString_no_panic[of "Path u" 50] abbreviateString_no_panic[of "RawQuery u" 6]
  by (simp add: urlDisplayPath_def split: panics.splits)

lemma attempt_stop:
  assumes "attempt E cfg meth path body options retry tr = (Inl oc, tr')"
  shows "(tr' = tr \<and> oc = Exit
            \<and> prepareHTTPRequest E cfg meth path body (Headers options) = Fatal) \<or>
         (tr' = tr \<and> (\<exists>e. oc = Return (Some e)
            \<and> prepareHTTPRequest E cfg meth path body (Headers options) = Failed e)) \<or>
         (\<exists>l req e. tr' = tr @ [EvStartSpinner l, EvDo req] \<and>
            prepareHTTPRequest E cfg meth path body (Headers options) = Prepared req \<and>
            oc = Return (Some (RequestFailed meth (UrlString (ReqURL req)) e))) \<or>
         (\<exists>l req c e. tr' = tr @ [EvStartSpinner l, EvDo req, EvResponse c, EvReadAll None] \<and>
            prepareHTTPRequest E cfg meth path body (Headers options) = Prepared req \<and>
            oc = Return (Some (ReadFailed meth (UrlString (ReqURL req)) c e)))"
  using assms urlDisplayPath_no_panic
  by (auto simp add: attempt_def Let_def
      split: prepared.splits panics.splits sum.splits)

lemma attempt_reply:
  assumes "attempt E cfg meth path body options retry tr = (Inr (resp, respBytes), tr')"
  shows "\<exists>l req. tr' = tr @ [EvStartSpinner l, EvDo req, EvResponse (RespStatusCode resp),
                             EvReadAll (Some respBytes)] \<and>
           prepareHTTPRequest E cfg meth path body (Headers options) = Prepared req"
  using assms
  by (auto simp add: attempt_def Let_def
      split: prepared.splits panics.splits sum.splits)

lemma finish_shape:
  "\<exists>sfx. trace (finish E meth options cfg resp respBytes tr) = tr @ sfx \<and>
     conf (finish E meth options cfg resp respBytes tr) = cfg \<and>
     ((sfx = [EvStopSpinner False, EvParseIntoError] \<and>
       err (finish E meth options cfg resp respBytes tr)
         = Return (Some (StatusError (parseIntoError E resp respBytes))) \<and>
       out (finish E meth options cfg resp respBytes tr) = None \<and>
       RespStatusCode resp div 100 \<noteq> 2 \<and> RespStatusCode resp \<noteq> 303) \<or>
      (sfx = [EvStopSpinner True] \<and>
       (\<exists>ct. err (finish E meth options cfg resp respBytes tr)
               = Return (Some (FilenameNotProvided ct))) \<and>
       out (finish E meth options cfg resp respBytes tr) = None \<and> meth \<noteq> ''DELETE'') \<or>
      (\<exists>name e. sfx = [EvStopSpinner True, EvWriteFile name False] \<and>
       err (finish E meth options cfg resp respBytes tr)
         = Return (Some (SaveFailed name e)) \<and>
       out (finish E meth options cfg resp respBytes tr) = None \<and> meth \<noteq> ''DELETE'') \<or>
      (\<exists>name. sfx = [EvStopSpinner True, EvWriteFile name True] \<and>
       err (finish E meth options cfg resp respBytes tr) = Return None \<and>
       out (finish E meth options cfg resp respBytes tr) = None \<and> meth \<noteq> ''DELETE'') \<or>
      (\<exists>e. sfx = [EvStopSpinner True, EvUnmarshal False] \<and>
       err (finish E meth options cfg resp respBytes tr)
         = Return (Some (JSONParseFailed e respBytes)) \<and>
       out (finish E meth options cfg resp respBytes tr) = None \<and> meth \<noteq> ''DELETE'' \<and>
       respBytes \<noteq> [] \<and> RespStatusCode resp \<noteq> 303) \<or>
      (\<exists>v. sfx = [EvStopSpinner True, EvUnmarshal True] \<and>
       err (finish E meth options cfg resp respBytes tr) = Return None \<and>
       out (finish E meth options cfg resp respBytes tr) = Some v \<and> meth \<noteq> ''DELETE'' \<and>
       respBytes \<noteq> [] \<and> RespStatusCode resp \<noteq> 303) \<or>
      (sfx = [EvStopSpinner True] \<and>
       err (finish E meth options cfg resp respBytes tr) = Return None \<and>
       out (finish E meth options cfg resp respBytes tr) = None \<and>
       (meth = ''DELETE'' \<or> respBytes = [] \<or> RespStatusCode resp = 303)))"
  by (simp add: finish_def Let_def split: option.splits sum.splits)

lemma afterLogin_cases:
  obtains
    (first_stopped) oc tr1 where
      "attempt E cfg1 meth path body options False tr0 = (Inl oc, tr1)"
      "afterLogin E cfg1 meth path body options tr0 = stopped oc options cfg1 tr1"
  | (first_final) resp respBytes tr1 where
      "attempt E cfg1 meth path body options False tr0 = (Inr (resp, respBytes), tr1)"
      "RespStatusCode resp \<noteq> 403"
      "afterLogin E cfg1 meth path body options tr0
         = finish E meth options cfg1 resp respBytes tr1"
  | (refresh_failed) resp respBytes tr1 e where
      "attempt E cfg1 meth path body options False tr0 = (Inr (resp, respBytes), tr1)"
      "RespStatusCode resp = 403"
      "login E (tr1 @ [EvStopSpinnerHide]) cfg1 = Inl e"
      "afterLogin E cfg1 meth path body options tr0
         = stopped (Return (Some (LoginFailed e))) options cfg1
             (tr1 @ [EvStopSpinnerHide, EvLogin False])"
  | (retry_stopped) resp respBytes tr1 cfg2 oc tr3 where
      "attempt E cfg1 meth path body options False tr0 = (Inr (resp, respBytes), tr1)"
      "RespStatusCode resp = 403"
      "login E (tr1 @ [EvStopSpinnerHide]) cfg1 = Inr cfg2"
      "attempt E cfg2 meth path body options True (tr1 @ [EvStopSpinnerHide, EvLogin True])
         = (Inl oc, tr3)"
      "afterLogin E cfg1 meth path body options tr0 = stopped oc options cfg2 tr3"
  | (retry_final) resp respBytes tr1 cfg2 resp2 respBytes2 tr3 where
      "attempt E cfg1 meth path body options False tr0 = (Inr (resp, respBytes), tr1)"
      "RespStatusCode resp = 403"
      "login E (tr1 @ [EvStopSpinnerHide]) cfg1 = Inr cfg2"
      "attempt E cfg2 meth path body options True (tr1 @ [EvStopSpinnerHide, EvLogin True])
         = (Inr (resp2, respBytes2), tr3)"
      "afterLogin E cfg1 meth path body options tr0
         = finish E meth options cfg2 resp2 respBytes2 tr3"
proof (cases "attempt E cfg1 meth path body options False tr0")
  case (Pair x tr1)
  show thesis
  proof (cases x)
    case (Inl oc)
    then show thesis using Pair first_stopped by (simp add: afterLogin_def)
  next
    case (Inr rb)
    obtain resp respBytes where rb: "rb = (resp, respBytes)" by (cases rb)
    note a1 = Pair[unfolded Inr rb]
    show thesis
    proof (cases "RespStatusCode resp = 403")
      case False
      then show thesis using a1 first_final by (simp add: afterLogin_def)
    next
      case True
      show thesis
      proof (cases "login E (tr1 @ [EvStopSpinnerHide]) cfg1")
        case (Inl e)
        then show thesis using a1 True refresh_failed by (simp add: afterLogin_def)
      next
        case l: (Inr cfg2)
        show thesis
        proof (cases "attempt E cfg2 meth path body options True
                        (tr1 @ [EvStopSpinnerHide, EvLogin True])")
          case p2: (Pair y tr3)
          show thesis
          proof (cases y)
            case (Inl oc)
            then show thesis
              using a1 True l p2 retry_stopped[of resp respBytes tr1 cfg2 oc tr3]
              by (simp add: afterLogin_def)
          next
            case r2: (Inr rb2)
            obtain resp2 respBytes2 where rb2: "rb2 = (resp2, respBytes2)" by (cases rb2)
            show thesis
              using a1 True l p2 r2 rb2
                retry_final[of resp respBytes tr1 cfg2 resp2 respBytes2 tr3]
              by (simp add: afterLogin_def)
          qed
        qed
      qed
    qed
  qed
qed

lemma afterLogin_see_other:
  assumes R_def: "R = afterLogin E cfg1 meth path body options tr0"
    and tr0: "tr0 = [] \<or> tr0 = [EvLogin True]"
    and seen: "EvResponse 303 \<in> set (trace R)"
  shows "(\<forall>se. err R \<noteq> Return (Some (StatusError se))) \<and>
         (\<forall>ok. EvUnmarshal ok \<notin> set (trace R)) \<and>
         EvParseIntoError \<notin> set (trace R) \<and>
         out R = None \<and> err R \<noteq> Exit \<and>
         (EvReadAll None \<notin> set (trace R) \<longrightarrow> EvStopSpinner True \<in> set (trace R)) \<and>
         (err R = Return None \<or>
          (\<exists>ct. err R = Return (Some (FilenameNotProvided ct))) \<or>
          (\<exists>name e. err R = Return (Some (SaveFailed name e))) \<or>
          (\<exists>u e. err R = Return (Some (ReadFailed meth u 303 e))))"
proof (cases rule: afterLogin_cases[of E cfg1 meth path body options tr0])
  case (first_stopped oc tr1)
  then show ?thesis
    using tr0 seen attempt_stop[OF first_stopped(1)]
    unfolding R_def by (auto simp add: stopped_def)
next
  case (first_final resp respBytes tr1)
  then show ?thesis
    using tr0 seen attempt_reply[OF first_final(1)]
      finish_shape[of E meth options cfg1 resp respBytes tr1]
    unfolding R_def by auto
next
  case (refresh_failed resp respBytes tr1 e)
  then show ?thesis
    using tr0 seen attempt_reply[OF refresh_failed(1)]
    unfolding R_def by (auto simp add: stopped_def)
next
  case (retry_stopped resp respBytes tr1 cfg2 oc tr3)
  then show ?thesis
    using tr0 seen attempt_reply[OF retry_stopped(1)] attempt_stop[OF retry_stopped(4)]
    unfolding R_def by (auto simp add: stopped_def)
next
  case (retry_final resp respBytes tr1 cfg2 resp2 respBytes2 tr3)
  then show ?thesis
    using tr0 seen attempt_reply[OF retry_final(1)] attempt_reply[OF retry_final(4)]
      finish_shape[of E meth options cfg2 resp2 respBytes2 tr3]
    unfolding R_def by auto
qed

lemma httpRequest_run_cases:
  obtains
    (login_failed) e where
      "httpRequest_run E cfg meth path body options
         = stopped (Return (Some (LoginError e))) options cfg [EvLogin False]"
  | (ran) cfg1 tr0 where "tr0 = [] \<or> tr0 = [EvLogin True]"
      "httpRequest_run E cfg meth path body options
         = afterLogin E cfg1 meth path body options tr0"
  by (cases "Token cfg = []"; cases "login E [] cfg") (auto simp add: httpRequest_run_def)

text \<open>
  C7: whenever a call receives a response with status 303, no Status Error is
  returned, \<^verbatim>\<open>parseIntoError\<close> is not called and no JSON decoding of the body into the
  output slot is attempted, whatever the body is; once the body is read the progress
  indicator is stopped as succeeded. The call returns the nil error, or one of the
  errors of reading the body and of saving a file.
\<close>

theorem see_other_is_success:
  assumes "EvResponse 303 \<in> set (events (httpRequest E cfg meth path body options))"
  shows "(\<forall>se. error_returned (httpRequest E cfg meth path body options)
               \<noteq> Return (Some (StatusError se))) \<and>
         (\<forall>ok. EvUnmarshal ok \<notin> set (events (httpRequest E cfg meth path body options))) \<and>
         EvParseIntoError \<notin> set (events (httpRequest E cfg meth path body options)) \<and>
         out_slot (httpRequest E cfg meth path body options) = None \<and>
         (EvReadAll None \<notin> set (events (httpRequest E cfg meth path body options)) \<longrightarrow>
            EvStopSpinner True \<in> set (events (httpRequest E cfg meth path body options))) \<and>
         (error_returned (httpRequest E cfg meth path body options) = Return None \<or>
          (\<exists>ct. error_returned (httpRequest E cfg meth path body options)
                  = Return (Some (FilenameNotProvided ct))) \<or>
          (\<exists>name e. error_returned (httpRequest E cfg meth path body options)
                  = Return (Some (SaveFailed name e))) \<or>
          (\<exists>u e. error_returned (httpRequest E cfg meth path body options)
                  = Return (Some (ReadFailed meth u 303 e))))"
proof (cases rule: httpRequest_run_cases[of E cfg meth path
    body "case options of None \<Rightarrow> emptyOptions | Some given \<Rightarrow> given"])
  case (login_failed e)
  then show ?thesis using assms by (simp add: httpRequest_def stopped_def Let_def)
next
  case (ran cfg1 tr0)
  have seen: "EvResponse 303 \<in> set (trace (afterLogin E cfg1 meth path body
      (case options of None \<Rightarrow> emptyOptions | Some given \<Rightarrow> given) tr0))"
    using assms ran(2) by (auto simp add: httpRequest_def Let_def split: if_splits)
  show ?thesis
    using afterLogin_see_other[OF refl ran(1) seen] ran(2)
    by (auto simp add: httpRequest_def Let_def)
qed

lemma attempt_quiet:
  assumes "attempt E cfg meth path body options retry tr = (x, tr')"
    and "\<forall>ok. EvUnmarshal ok \<notin> set tr" and "\<forall>name ok. EvWriteFile name ok \<notin> set tr"
  shows "(\<forall>ok. EvUnmarshal ok \<notin> set tr') \<and> (\<forall>name ok. EvWriteFile name ok \<notin> set tr') \<and>
         (\<forall>resp bs. x = Inr (resp, bs) \<longrightarrow>
            EvReadAll (Some bs) \<in> set tr' \<and> EvResponse (RespStatusCode resp) \<in> set tr') \<and>
         (\<forall>oc. x = Inl oc \<longrightarrow> oc \<noteq> Panicked \<and> oc \<noteq> Return None)"
  using assms urlDisplayPath_no_panic
  by (auto simp add: attempt_def Let_def split: prepared.splits panics.splits sum.splits)

lemma stopped_exactly_one:
  assumes "R = stopped oc options cfg tr" and "oc \<noteq> Panicked" and "oc \<noteq> Return None"
    and "\<forall>ok. EvUnmarshal ok \<notin> set tr" and "\<forall>name ok. EvWriteFile name ok \<notin> set tr"
  shows "err R \<noteq> Panicked \<and>
         (err R \<noteq> Return None \<longrightarrow>
            out R = None \<and> EvUnmarshal True \<notin> set (trace R) \<and>
            (\<forall>name. EvWriteFile name True \<notin> set (trace R))) \<and>
         (err R = Return None \<longrightarrow>
            (out R \<noteq> None \<and> EvUnmarshal True \<in> set (trace R) \<and>
             (\<forall>name ok. EvWriteFile name ok \<notin> set (trace R))) \<or>
            (out R = None \<and> (\<exists>name. EvWriteFile name True \<in> set (trace R)) \<and>
             (\<forall>ok. EvUnmarshal ok \<notin> set (trace R))) \<or>
            (out R = None \<and> (\<forall>name ok. EvWriteFile name ok \<notin> set (trace R)) \<and>
             (\<forall>ok. EvUnmarshal ok \<notin> set (trace R)) \<and>
             (meth = ''DELETE'' \<or> EvReadAll (Some []) \<in> set (trace R) \<or>
              EvResponse 303 \<in> set (trace R))))"
  using assms by (simp add: stopped_def)

lemma finish_exactly_one:
  assumes R: "R = finish E meth options cfg resp respBytes tr"
    and q: "\<forall>ok. EvUnmarshal ok \<notin> set tr" "\<forall>name ok. EvWriteFile name ok \<notin> set tr"
    and m: "EvReadAll (Some respBytes) \<in> set tr" "EvResponse (RespStatusCode resp) \<in> set tr"
  shows "err R \<noteq> Panicked \<and>
         (err R \<noteq> Return None \<longrightarrow>
            out R = None \<and> EvUnmarshal True \<notin> set (trace R) \<and>
            (\<forall>name. EvWriteFile name True \<notin> set (trace R))) \<and>
         (err R = Return None \<longrightarrow>
            (out R \<noteq> None \<and> EvUnmarshal True \<in> set (trace R) \<and>
             (\<forall>name ok. EvWriteFile name ok \<notin> set (trace R))) \<or>
            (out R = None \<and> (\<exists>name. EvWriteFile name True \<in> set (trace R)) \<and>
             (\<forall>ok. EvUnmarshal ok \<notin> set (trace R))) \<or>
            (out R = None \<and> (\<forall>name ok. EvWriteFile name ok \<notin> set (trace R)) \<and>
             (\<forall>ok. EvUnmarshal ok \<notin> set (trace R)) \<and>
             (meth = ''DELETE'' \<or> EvReadAll (Some []) \<in> set (trace R) \<or>
              EvResponse 303 \<in> set (trace R))))"
  using finish_shape[of E meth options cfg resp respBytes tr] q m unfolding R
  by (elim exE conjE disjE) auto

lemma afterLogin_exactly_one:
  assumes R_def: "R = afterLogin E cfg1 meth path body options tr0"
    and tr0: "tr0 = [] \<or> tr0 = [EvLogin True]"
  shows "err R \<noteq> Panicked \<and>
         (err R \<noteq> Return None \<longrightarrow>
            out R = None \<and> EvUnmarshal True \<notin> set (trace R) \<and>
            (\<forall>name. EvWriteFile name True \<notin> set (trace R))) \<and>
         (err R = Return None \<longrightarrow>
            (out R \<noteq> None \<and> EvUnmarshal True \<in> set (trace R) \<and>
             (\<forall>name ok. EvWriteFile name ok \<notin> set (trace R))) \<or>
            (out R = None \<and> (\<exists>name. EvWriteFile name True \<in> set (trace R)) \<and>
             (\<forall>ok. EvUnmarshal ok \<notin> set (trace R))) \<or>
            (out R = None \<and> (\<forall>name ok. EvWriteFile name ok \<notin> set (trace R)) \<and>
             (\<forall>ok. EvUnmarshal ok \<notin> set (trace R)) \<and>
             (meth = ''DELETE'' \<or> EvReadAll (Some []) \<in> set (trace R) \<or>
              EvResponse 303 \<in> set (trace R))))"
proof -
  have q0: "\<forall>ok. EvUnmarshal ok \<notin> set tr0" "\<forall>name ok. EvWriteFile name ok \<notin> set tr0"
    using tr0 by auto
  show ?thesis
  proof (cases rule: afterLogin_cases[of E cfg1 meth path body options tr0])
    case (first_stopped oc tr1)
    from attempt_quiet[OF first_stopped(1) q0] show ?thesis
      by (intro stopped_exactly_one[OF R_def[unfolded first_stopped(2)]]) simp_all
  next
    case (first_final resp respBytes tr1)
    from attempt_quiet[OF first_final(1) q0] show ?thesis
      by (intro finish_exactly_one[OF R_def[unfolded first_final(3)]]) simp_all
  next
    case (refresh_failed resp respBytes tr1 e)
    from attempt_quiet[OF refresh_failed(1) q0] show ?thesis
      by (intro stopped_exactly_one[OF R_def[unfolded refresh_failed(4)]]) simp_all
  next
    case (retry_stopped resp respBytes tr1 cfg2 oc tr3)
    from attempt_quiet[OF retry_stopped(1) q0]
    have q1: "\<forall>ok. EvUnmarshal ok \<notin> set (tr1 @ [EvStopSpinnerHide, EvLogin True])"
      "\<forall>name ok. EvWriteFile name ok \<notin> set (tr1 @ [EvStopSpinnerHide, EvLogin True])"
      by simp_all
    from attempt_quiet[OF retry_stopped(4) q1] show ?thesis
      by (intro stopped_exactly_one[OF R_def[unfolded retry_stopped(5)]]) simp_all
  next
    case (retry_final resp respBytes tr1 cfg2 resp2 respBytes2 tr3)
    from attempt_quiet[OF retry_final(1) q0]
    have q1: "\<forall>ok. EvUnmarshal ok \<notin> set (tr1 @ [EvStopSpinnerHide, EvLogin True])"
      "\<forall>name ok. EvWriteFile name ok \<notin> set (tr1 @ [EvStopSpinnerHide, EvLogin True])"
      by simp_all
    from attempt_quiet[OF retry_final(4) q1] show ?thesis
      by (intro finish_exactly_one[OF R_def[unfolded retry_final(5)]]) simp_all
  qed
qed


lemmas reading = first_reply_def after_first_reply_def is_send_def is_login_def

lemma reading_first:
  assumes "tr0 = [] \<or> tr0 = [EvLogin True]"
  shows "first_reply (tr0 @ EvStartSpinner l # EvDo req # a # b # rest) = [a, b]"
    and "after_first_reply (tr0 @ EvStartSpinner l # EvDo req # a # b # rest) = rest"
    and "first_reply (tr0 @ [EvStartSpinner l, EvDo req] @ fin) = take 2 fin"
    and "first_reply (tr0 @ fin) = first_reply fin"
  using assms by (auto simp add: reading)

lemma reading_retry:
  "first_reply (EvStopSpinnerHide # EvLogin True # EvStartSpinner l # EvDo req # a # b # rest)
     = [a, b]"
  "after_first_reply
     (EvStopSpinnerHide # EvLogin True # EvStartSpinner l # EvDo req # a # b # rest) = rest"
  "filter is_login
     (EvStopSpinnerHide # EvLogin True # EvStartSpinner l # EvDo req # a # b # rest)
     = EvLogin True # filter is_login (a # b # rest)"
  "filter is_send
     (EvStopSpinnerHide # EvLogin True # EvStartSpinner l # EvDo req # a # b # rest)
     = EvDo req # filter is_send (a # b # rest)"
  by (simp_all add: reading)

lemma afterLogin_one_refresh:
  assumes R_def: "R = afterLogin E cfg1 meth path body options tr0"
    and tr0: "tr0 = [] \<or> tr0 = [EvLogin True]"
    and fin: "fin = [] \<or> fin = [EvStopSpinner False]"
    and first: "first_reply (trace R @ fin) = [EvResponse 403, EvReadAll (Some b1)]"
  shows "length (filter is_login (after_first_reply (trace R @ fin))) = 1 \<and>
         length (filter is_send (after_first_reply (trace R @ fin))) \<le> 1 \<and>
         (EvLogin False \<in> set (after_first_reply (trace R @ fin)) \<longrightarrow>
            filter is_send (after_first_reply (trace R @ fin)) = [] \<and>
            (\<exists>e. err R = Return (Some (LoginFailed e)))) \<and>
         (EvLogin True \<in> set (after_first_reply (trace R @ fin)) \<longrightarrow>
            (\<forall>req2. prepareHTTPRequest E (conf R) meth path body (Headers options)
                       = Prepared req2 \<longrightarrow>
               filter is_send (after_first_reply (trace R @ fin)) = [EvDo req2])) \<and>
         (\<forall>b2. first_reply (after_first_reply (trace R @ fin))
                 = [EvResponse 403, EvReadAll (Some b2)] \<longrightarrow>
            (\<exists>se. err R = Return (Some (StatusError se)) \<and> StatusCode se = 403) \<and>
            filter is_login (after_first_reply (after_first_reply (trace R @ fin))) = [] \<and>
            filter is_send (after_first_reply (after_first_reply (trace R @ fin))) = [])"
proof (cases rule: afterLogin_cases[of E cfg1 meth path body options tr0])
  case (first_stopped oc tr1)
  have False
    using attempt_stop[OF first_stopped(1)] first fin tr0
    unfolding R_def first_stopped(2)
    by (elim disjE exE conjE) (auto simp add: stopped_def reading)
  then show ?thesis ..
next
  case (first_final resp respBytes tr1)
  from attempt_reply[OF first_final(1)] obtain l req where
    tr1: "tr1 = tr0 @ [EvStartSpinner l, EvDo req, EvResponse (RespStatusCode resp),
                       EvReadAll (Some respBytes)]"
    by blast
  from finish_shape[of E meth options cfg1 resp respBytes tr1] obtain sfx where
    t: "trace (finish E meth options cfg1 resp respBytes tr1) = tr1 @ sfx"
    by blast
  have T: "trace R = tr1 @ sfx"
    unfolding R_def first_final(3) by (rule t)
  have False
    using first first_final(2) unfolding T tr1
    by (simp add: reading_first(1)[OF tr0])
  then show ?thesis ..
next
  case (refresh_failed resp respBytes tr1 e)
  from attempt_reply[OF refresh_failed(1)] obtain l req where
    tr1: "tr1 = tr0 @ [EvStartSpinner l, EvDo req, EvResponse (RespStatusCode resp),
                       EvReadAll (Some respBytes)]"
    by blast
  have a: "after_first_reply (trace R @ fin) = [EvStopSpinnerHide, EvLogin False] @ fin"
    unfolding R_def refresh_failed(4) tr1
    by (simp add: stopped_def reading_first(2)[OF tr0])
  have e: "err R = Return (Some (LoginFailed e))"
    unfolding R_def refresh_failed(4) by (simp add: stopped_def)
  show ?thesis
    unfolding a e using fin by (auto simp add: reading)
next
  case (retry_stopped resp respBytes tr1 cfg2 oc tr3)
  from attempt_reply[OF retry_stopped(1)] obtain l req where
    tr1: "tr1 = tr0 @ [EvStartSpinner l, EvDo req, EvResponse (RespStatusCode resp),
                       EvReadAll (Some respBytes)]"
    by blast
  have c: "conf R = cfg2" and e: "err R = oc" and t: "trace R = tr3"
    unfolding R_def retry_stopped(5) by (simp_all add: stopped_def)
  from attempt_stop[OF retry_stopped(4)] show ?thesis
  proof (elim disjE exE conjE)
    assume h: "tr3 = tr1 @ [EvStopSpinnerHide, EvLogin True]"
      "prepareHTTPRequest E cfg2 meth path body (Headers options) = Fatal"
    have a: "after_first_reply (trace R @ fin) = [EvStopSpinnerHide, EvLogin True] @ fin"
      unfolding t h(1) tr1 by (simp add: reading_first(2)[OF tr0])
    show ?thesis
      unfolding a c e using fin h(2) by (auto simp add: reading)
  next
    fix e'
    assume h: "tr3 = tr1 @ [EvStopSpinnerHide, EvLogin True]"
      "prepareHTTPRequest E cfg2 meth path body (Headers options) = Failed e'"
    have a: "after_first_reply (trace R @ fin) = [EvStopSpinnerHide, EvLogin True] @ fin"
      unfolding t h(1) tr1 by (simp add: reading_first(2)[OF tr0])
    show ?thesis
      unfolding a c e using fin h(2) by (auto simp add: reading)
  next
    fix l2 req2 e'
    assume h: "tr3 = (tr1 @ [EvStopSpinnerHide, EvLogin True]) @ [EvStartSpinner l2, EvDo req2]"
      "prepareHTTPRequest E cfg2 meth path body (Headers options) = Prepared req2"
    have a: "after_first_reply (trace R @ fin)
               = [EvStopSpinnerHide, EvLogin True, EvStartSpinner l2, EvDo req2] @ fin"
      unfolding t h(1) tr1 by (simp add: reading_first(2)[OF tr0])
    show ?thesis
      unfolding a c e using fin h(2) by (auto simp add: reading)
  next
    fix l2 req2 c2 e'
    assume h: "tr3 = (tr1 @ [EvStopSpinnerHide, EvLogin True])
                    @ [EvStartSpinner l2, EvDo req2, EvResponse c2, EvReadAll None]"
      "prepareHTTPRequest E cfg2 meth path body (Headers options) = Prepared req2"
    have a: "after_first_reply (trace R @ fin)
               = [EvStopSpinnerHide, EvLogin True, EvStartSpinner l2, EvDo req2,
                  EvResponse c2, EvReadAll None] @ fin"
      unfolding t h(1) tr1 by (simp add: reading_first(2)[OF tr0])
    show ?thesis
      unfolding a c e using fin h(2) by (auto simp add: reading)
  qed
next
  case (retry_final resp respBytes tr1 cfg2 resp2 respBytes2 tr3)
  from attempt_reply[OF retry_final(1)] obtain l req where
    tr1: "tr1 = tr0 @ [EvStartSpinner l, EvDo req, EvResponse (RespStatusCode resp),
                       EvReadAll (Some respBytes)]"
    by blast
  from attempt_reply[OF retry_final(4)] obtain l2 req2 where
    tr3: "tr3 = (tr1 @ [EvStopSpinnerHide, EvLogin True])
                  @ [EvStartSpinner l2, EvDo req2, EvResponse (RespStatusCode resp2),
                     EvReadAll (Some respBytes2)]"
    and p2: "prepareHTTPRequest E cfg2 meth path body (Headers options) = Prepared req2"
    by blast
  have sc: "StatusCode (parseIntoError E resp2 respBytes2) = RespStatusCode resp2"
    by (simp add: parseIntoError_def Let_def split: option.splits)
  from finish_shape[of E meth options cfg2 resp2 respBytes2 tr3] obtain sfx where
    t: "trace R = tr3 @ sfx" and c: "conf R = cfg2"
    and ns: "filter is_login sfx = []" "filter is_send sfx = []"
    unfolding R_def retry_final(5) by (elim exE conjE disjE) (auto simp add: reading)
  have e403: "RespStatusCode resp2 = 403 \<Longrightarrow>
      err R = Return (Some (StatusError (parseIntoError E resp2 respBytes2)))"
    unfolding R_def retry_final(5) by (simp add: finish_def)
  have a: "after_first_reply (trace R @ fin)
             = [EvStopSpinnerHide, EvLogin True, EvStartSpinner l2, EvDo req2,
                EvResponse (RespStatusCode resp2), EvReadAll (Some respBytes2)] @ sfx @ fin"
    unfolding t tr3 tr1 by (simp add: reading_first(2)[OF tr0])
  have nf: "filter is_login fin = []" "filter is_send fin = []"
    using fin by (auto simp add: reading)
  have nl: "EvLogin False \<notin> set sfx" "EvLogin False \<notin> set fin"
    using ns(1) nf(1) by (auto simp add: filter_empty_conv is_login_def)
  show ?thesis
    unfolding a c using ns nf nl p2 sc e403
    by (simp add: reading_retry) (simp add: reading)
qed

text \<open>
  C1, amended: for every call whose first request is answered by status 403 with a
  body that is read, exactly one login follows and at most one more request is sent.
  When that login fails, no request is sent again and the call returns the wrapped
  login error. When it succeeds and the request can be built again from the refreshed
  configuration, exactly that request is sent. When the retried request is answered by
  403 too (with a body that is read), the call returns a Status Error with status code
  403, and neither a login nor a request follows.
\<close>

theorem one_refresh_one_retry:
  "\<forall>b1. first_reply (events (httpRequest E cfg meth path body options))
           = [EvResponse 403, EvReadAll (Some b1)] \<longrightarrow>
      length (filter is_login
                (after_first_reply (events (httpRequest E cfg meth path body options)))) = 1 \<and>
      length (filter is_send
                (after_first_reply (events (httpRequest E cfg meth path body options)))) \<le> 1 \<and>
      (EvLogin False
         \<in> set (after_first_reply (events (httpRequest E cfg meth path body options))) \<longrightarrow>
         filter is_send
           (after_first_reply (events (httpRequest E cfg meth path body options))) = [] \<and>
         (\<exists>e. error_returned (httpRequest E cfg meth path body options)
                = Return (Some (LoginFailed e)))) \<and>
      (EvLogin True
         \<in> set (after_first_reply (events (httpRequest E cfg meth path body options))) \<longrightarrow>
         (\<forall>req2. prepareHTTPRequest E
                     (config_after (httpRequest E cfg meth path body options)) meth path
                     body (Headers (case options of None \<Rightarrow> emptyOptions | Some given \<Rightarrow> given))
                     = Prepared req2 \<longrightarrow>
            filter is_send
              (after_first_reply (events (httpRequest E cfg meth path body options)))
              = [EvDo req2])) \<and>
      (\<forall>b2. first_reply
               (after_first_reply (events (httpRequest E cfg meth path body options)))
               = [EvResponse 403, EvReadAll (Some b2)] \<longrightarrow>
         (\<exists>se. error_returned (httpRequest E cfg meth path body options)
                  = Return (Some (StatusError se)) \<and> StatusCode se = 403) \<and>
         filter is_login
           (after_first_reply
              (after_first_reply (events (httpRequest E cfg meth path body options)))) = [] \<and>
         filter is_send
           (after_first_reply
              (after_first_reply (events (httpRequest E cfg meth path body options)))) = [])"
proof (intro allI impI)
  fix b1
  let ?o = "case options of None \<Rightarrow> emptyOptions | Some given \<Rightarrow> given"
  let ?R = "httpRequest E cfg meth path body options"
  assume first: "first_reply (events ?R) = [EvResponse 403, EvReadAll (Some b1)]"
  show "length (filter is_login (after_first_reply (events ?R))) = 1 \<and>
      length (filter is_send (after_first_reply (events ?R))) \<le> 1 \<and>
      (EvLogin False \<in> set (after_first_reply (events ?R)) \<longrightarrow>
         filter is_send (after_first_reply (events ?R)) = [] \<and>
         (\<exists>e. error_returned ?R = Return (Some (LoginFailed e)))) \<and>
      (EvLogin True \<in> set (after_first_reply (events ?R)) \<longrightarrow>
         (\<forall>req2. prepareHTTPRequest E (config_after ?R) meth path body (Headers ?o)
                     = Prepared req2 \<longrightarrow>
            filter is_send (after_first_reply (events ?R)) = [EvDo req2])) \<and>
      (\<forall>b2. first_reply (after_first_reply (events ?R))
               = [EvResponse 403, EvReadAll (Some b2)] \<longrightarrow>
         (\<exists>se. error_returned ?R = Return (Some (StatusError se)) \<and> StatusCode se = 403) \<and>
         filter is_login (after_first_reply (after_first_reply (events ?R))) = [] \<and>
         filter is_send (after_first_reply (after_first_reply (events ?R))) = [])"
  proof (cases rule: httpRequest_run_cases[of E cfg meth path body ?o])
    case (login_failed e)
    then have False
      using first by (simp add: httpRequest_def stopped_def Let_def reading)
    then show ?thesis ..
  next
    case (ran cfg1 tr0)
    define r where "r = afterLogin E cfg1 meth path body ?o tr0"
    define fin where "fin = (if err r = Exit then [] else [EvStopSpinner False])"
    have fin: "fin = [] \<or> fin = [EvStopSpinner False]" by (simp add: fin_def)
    have ev: "events ?R = trace r @ fin" and er: "error_returned ?R = err r"
      and co: "config_after ?R = conf r"
      using ran(2) by (simp_all add: httpRequest_def Let_def r_def fin_def)
    show ?thesis
      using afterLogin_one_refresh[OF r_def ran(1) fin first[unfolded ev]]
      unfolding ev er co .
  qed
qed

lemma sample_display:
  "urlDisplayPath \<lparr>Path = ''/x'', RawQuery = [], UrlString = u\<rparr> = Done ''/x''"
  by (simp add: urlDisplayPath_def abbreviateString_def RuneCountInString_def
      runes_ascii_step byte_def)

lemma sample_prepare_plain:
  "prepareHTTPRequest (sample_env s l) (sample_config t) m ''/x'' None None
     = Prepared (sample_request m t)"
  by (simp add: sample_prepare sample_config_sel lookupHeader_None requestHeaders_def
      synthesizedHeaders_def headerAdd_def headerValues_def canonical_names
      AuthMethodLocal_def addExplicit_def headerEntries_def Let_def sample_request_def)

lemma sample_attempt:
  "attempt (sample_env s l) (sample_config t) m ''/x'' None emptyOptions retry tr =
     (case s (tr @ [EvStartSpinner (spinnerLabel retry m ''/x''), EvDo (sample_request m t)])
             (sample_request m t) of
        Inl e \<Rightarrow>
          (Inl (Return (Some (RequestFailed m ''https://h/x'' e))),
           tr @ [EvStartSpinner (spinnerLabel retry m ''/x''), EvDo (sample_request m t)])
      | Inr resp \<Rightarrow>
          (case RespBody resp of
             Inl e \<Rightarrow>
               (Inl (Return (Some (ReadFailed m ''https://h/x'' (RespStatusCode resp) e))),
                tr @ [EvStartSpinner (spinnerLabel retry m ''/x''), EvDo (sample_request m t),
                      EvResponse (RespStatusCode resp), EvReadAll None])
           | Inr bs \<Rightarrow>
               (Inr (resp, bs),
                tr @ [EvStartSpinner (spinnerLabel retry m ''/x''), EvDo (sample_request m t),
                      EvResponse (RespStatusCode resp), EvReadAll (Some bs)])))"
  by (simp add: attempt_def emptyOptions_def sample_prepare_plain sample_request_def
      sample_display sample_env_sel Let_def split: sum.splits)

lemma sample_finish:
  "finish (sample_env s l) m emptyOptions cfg (respond code b) b tr =
     (if code div 100 \<noteq> 2 \<and> code \<noteq> 303
      then \<lparr>err = Return (Some (StatusError (parseIntoError (sample_env s l) (respond code b) b))),
             out = None, opts = emptyOptions, conf = cfg,
             trace = tr @ [EvStopSpinner False, EvParseIntoError]\<rparr>
      else if m \<noteq> ''DELETE'' \<and> b \<noteq> [] \<and> code \<noteq> 303
      then (case sample_parse b of
              None \<Rightarrow> \<lparr>err = Return (Some (JSONParseFailed ''invalid JSON'' b)), out = None,
                        opts = emptyOptions, conf = cfg,
                        trace = tr @ [EvStopSpinner True, EvUnmarshal False]\<rparr>
            | Some j \<Rightarrow> \<lparr>err = Return None, out = Some j,
                          opts = emptyOptions\<lparr>ResponseHeaders :=
                                   Some [(''Content-Type'', [''application/json''])]\<rparr>,
                          conf = cfg, trace = tr @ [EvStopSpinner True, EvUnmarshal True]\<rparr>)
      else \<lparr>err = Return None, out = None,
             opts = emptyOptions\<lparr>ResponseHeaders :=
                      Some [(''Content-Type'', [''application/json''])]\<rparr>,
             conf = cfg, trace = tr @ [EvStopSpinner True]\<rparr>)"
  by (simp add: finish_def respond_def headerGet_def headerValues_def canonical_names
      sample_env_sel Let_def split: option.splits)

lemma respond_sel:
  "RespStatusCode (respond code b) = code" "RespBody (respond code b) = Inr b"
  "RespHeader (respond code b) = Some [(''Content-Type'', [''application/json''])]"
  by (simp_all add: respond_def)

lemma sample_config_Token: "(sample_config t)\<lparr>Token := t'\<rparr> = sample_config t'"
  by (simp add: sample_config_def)

lemma sample_bodies_nonempty:
  "body_ok \<noteq> []" "body_denied \<noteq> []" "body_not_found \<noteq> []" "body_id \<noteq> []"
  by (simp_all add: body_ok_def body_denied_def body_not_found_def body_id_def)

lemmas run_simps = sample_bodies_nonempty httpRequest_def httpRequest_run_def afterLogin_def sample_attempt
  sample_finish server_always_def server_expired_def login_sets_def login_fails_def
  respond_sel sample_config_sel sample_config_Token sample_env_sel spinnerLabel_def
  stopped_def Let_def sample_parse_values sample_errors


lemma run_ok:
  "httpRequest (sample_env (server_always 200 body_ok) login_fails) (sample_config ''tok'')
     ''GET'' ''/x'' None None
   = \<lparr>error_returned = Return None, out_slot = Some (JObject [(''ok'', JBool True)]),
      caller_options = None, config_after = sample_config ''tok'',
      events = [EvStartSpinner ''Platform API call (GET /x)'',
                EvDo (sample_request ''GET'' ''tok''), EvResponse 200,
                EvReadAll (Some body_ok), EvStopSpinner True, EvUnmarshal True,
                EvStopSpinner False]\<rparr>"
  by (simp add: run_simps)

lemma run_ok_options:
  "httpRequest (sample_env (server_always 200 body_ok) login_fails) (sample_config ''tok'')
     ''GET'' ''/x'' None (Some emptyOptions)
   = \<lparr>error_returned = Return None, out_slot = Some (JObject [(''ok'', JBool True)]),
      caller_options =
        Some (emptyOptions\<lparr>ResponseHeaders :=
                Some [(''Content-Type'', [''application/json''])]\<rparr>),
      config_after = sample_config ''tok'',
      events = [EvStartSpinner ''Platform API call (GET /x)'',
                EvDo (sample_request ''GET'' ''tok''), EvResponse 200,
                EvReadAll (Some body_ok), EvStopSpinner True, EvUnmarshal True,
                EvStopSpinner False]\<rparr>"
  by (simp add: run_simps)


lemma run_see_other:
  "httpRequest (sample_env (server_always 303 ''moved'') login_fails) (sample_config ''tok'')
     ''PUT'' ''/x'' None None
   = \<lparr>error_returned = Return None, out_slot = None, caller_options = None,
      config_after = sample_config ''tok'',
      events = [EvStartSpinner ''Platform API call (PUT /x)'',
                EvDo (sample_request ''PUT'' ''tok''), EvResponse 303,
                EvReadAll (Some ''moved''), EvStopSpinner True, EvStopSpinner False]\<rparr>"
  by (simp add: run_simps)

lemma run_login_fails:
  "httpRequest (sample_env (server_always 403 body_denied) login_fails) (sample_config ''tok'')
     ''GET'' ''/x'' None None
   = \<lparr>error_returned = Return (Some (LoginFailed ''no credentials'')), out_slot = None,
      caller_options = None, config_after = sample_config ''tok'',
      events = [EvStartSpinner ''Platform API call (GET /x)'',
                EvDo (sample_request ''GET'' ''tok''), EvResponse 403,
                EvReadAll (Some body_denied), EvStopSpinnerHide, EvLogin False,
                EvStopSpinner False]\<rparr>"
  by (simp add: run_simps)

lemma run_unreadable:
  "httpRequest (sample_env server_unreadable (login_sets ''new'')) (sample_config ''tok'')
     ''GET'' ''/x'' None None
   = \<lparr>error_returned =
        Return (Some (ReadFailed ''GET'' ''https://h/x'' 403 ''connection reset'')),
      out_slot = None, caller_options = None, config_after = sample_config ''tok'',
      events = [EvStartSpinner ''Platform API call (GET /x)'',
                EvDo (sample_request ''GET'' ''tok''), EvResponse 403, EvReadAll None,
                EvStopSpinner False]\<rparr>"
  by (simp add: run_simps server_unreadable_def)

lemma run_expired:
  "httpRequest (sample_env server_expired (login_sets ''new'')) (sample_config ''old'')
     ''GET'' ''/x'' None None
   = \<lparr>error_returned = Return None, out_slot = Some (JObject [(''ok'', JBool True)]),
      caller_options = None, config_after = sample_config ''new'',
      events = [EvStartSpinner ''Platform API call (GET /x)'',
                EvDo (sample_request ''GET'' ''old''), EvResponse 403,
                EvReadAll (Some body_denied), EvStopSpinnerHide, EvLogin True,
                EvStartSpinner ''Platform API call, retry after login (GET /x)'',
                EvDo (sample_request ''GET'' ''new''), EvResponse 200,
                EvReadAll (Some body_ok), EvStopSpinner True, EvUnmarshal True,
                EvStopSpinner False]\<rparr>"
  by (simp add: run_simps)

lemma run_forbidden_twice:
  "httpRequest (sample_env (server_always 403 body_denied) (login_sets ''new''))
     (sample_config ''old'') ''GET'' ''/x'' None None
   = \<lparr>error_returned =
        Return (Some (StatusError
          \<lparr>Message = ''Forbidden'', StatusCode = 403,
           WrappedErr = Some \<lparr>Status = 403, Title = ''denied'', Detail = []\<rparr>\<rparr>)),
      out_slot = None, caller_options = None, config_after = sample_config ''new'',
      events = [EvStartSpinner ''Platform API call (GET /x)'',
                EvDo (sample_request ''GET'' ''old''), EvResponse 403,
                EvReadAll (Some body_denied), EvStopSpinnerHide, EvLogin True,
                EvStartSpinner ''Platform API call, retry after login (GET /x)'',
                EvDo (sample_request ''GET'' ''new''), EvResponse 403,
                EvReadAll (Some body_denied), EvStopSpinner False, EvParseIntoError,
                EvStopSpinner False]\<rparr>"
  by (simp add: run_simps)

text \<open>
  The theorem at a server that answers 403 until a login has happened and 200 from
  then on, and at a server that always answers 403, both with a login that succeeds.
\<close>

theorem one_refresh_one_retry_witness:
  "first_reply (events (httpRequest (sample_env server_expired (login_sets ''new''))
                          (sample_config ''old'') ''GET'' ''/x'' None None))
     = [EvResponse 403, EvReadAll (Some body_denied)] \<and>
   filter is_login
     (after_first_reply (events (httpRequest (sample_env server_expired (login_sets ''new''))
                                   (sample_config ''old'') ''GET'' ''/x'' None None)))
     = [EvLogin True] \<and>
   filter is_send
     (after_first_reply (events (httpRequest (sample_env server_expired (login_sets ''new''))
                                   (sample_config ''old'') ''GET'' ''/x'' None None)))
     = [EvDo (sample_request ''GET'' ''new'')] \<and>
   error_returned (httpRequest (sample_env server_expired (login_sets ''new''))
                     (sample_config ''old'') ''GET'' ''/x'' None None) = Return None \<and>
   out_slot (httpRequest (sample_env server_expired (login_sets ''new''))
               (sample_config ''old'') ''GET'' ''/x'' None None)
     = Some (JObject [(''ok'', JBool True)]) \<and>
   first_reply
     (after_first_reply
        (events (httpRequest (sample_env (server_always 403 body_denied) (login_sets ''new''))
                   (sample_config ''old'') ''GET'' ''/x'' None None)))
     = [EvResponse 403, EvReadAll (Some body_denied)] \<and>
   error_returned (httpRequest (sample_env (server_always 403 body_denied) (login_sets ''new''))
                     (sample_config ''old'') ''GET'' ''/x'' None None)
     = Return (Some (StatusError
         \<lparr>Message = ''Forbidden'', StatusCode = 403,
          WrappedErr = Some \<lparr>Status = 403, Title = ''denied'', Detail = []\<rparr>\<rparr>)) \<and>
   filter is_send
     (after_first_reply
        (after_first_reply
           (events (httpRequest (sample_env (server_always 403 body_denied) (login_sets ''new''))
                      (sample_config ''old'') ''GET'' ''/x'' None None))))
     = []"
  using
    one_refresh_one_retry[of "sample_env server_expired (login_sets ''new'')"
      "sample_config ''old''" "''GET''" "''/x''" None None]
    one_refresh_one_retry[of "sample_env (server_always 403 body_denied) (login_sets ''new'')"
      "sample_config ''old''" "''GET''" "''/x''" None None]
  by (simp add: run_expired run_forbidden_twice reading)

text \<open>
  C1 as stated fails: when the first response has status 403 and the login fails, one
  request is sent and no retry; and when the body of the 403 response cannot be read,
  there is no login either.
\<close>

theorem refresh_without_retry:
  "events (httpRequest (sample_env (server_always 403 body_denied) login_fails)
             (sample_config ''tok'') ''GET'' ''/x'' None None)
     = [EvStartSpinner ''Platform API call (GET /x)'', EvDo (sample_request ''GET'' ''tok''),
        EvResponse 403, EvReadAll (Some body_denied), EvStopSpinnerHide, EvLogin False,
        EvStopSpinner False] \<and>
   filter is_send
     (events (httpRequest (sample_env (server_always 403 body_denied) login_fails)
                (sample_config ''tok'') ''GET'' ''/x'' None None))
     = [EvDo (sample_request ''GET'' ''tok'')] \<and>
   error_returned (httpRequest (sample_env (server_always 403 body_denied) login_fails)
                     (sample_config ''tok'') ''GET'' ''/x'' None None)
     = Return (Some (LoginFailed ''no credentials'')) \<and>
   events (httpRequest (sample_env server_unreadable (login_sets ''new''))
             (sample_config ''tok'') ''GET'' ''/x'' None None)
     = [EvStartSpinner ''Platform API call (GET /x)'', EvDo (sample_request ''GET'' ''tok''),
        EvResponse 403, EvReadAll None, EvStopSpinner False] \<and>
   error_returned (httpRequest (sample_env server_unreadable (login_sets ''new''))
                     (sample_config ''tok'') ''GET'' ''/x'' None None)
     = Return (Some (ReadFailed ''GET'' ''https://h/x'' 403 ''connection reset''))"
  by (simp add: run_login_fails run_unreadable reading)



text \<open>The theorem at a PUT answered by 303 with a body that is not JSON.\<close>

theorem see_other_is_success_witness:
  "EvResponse 303
     \<in> set (events (httpRequest (sample_env (server_always 303 ''moved'') login_fails)
                       (sample_config ''tok'') ''PUT'' ''/x'' None None)) \<and>
   error_returned (httpRequest (sample_env (server_always 303 ''moved'') login_fails)
                     (sample_config ''tok'') ''PUT'' ''/x'' None None) = Return None \<and>
   out_slot (httpRequest (sample_env (server_always 303 ''moved'') login_fails)
               (sample_config ''tok'') ''PUT'' ''/x'' None None) = None \<and>
   events (httpRequest (sample_env (server_always 303 ''moved'') login_fails)
             (sample_config ''tok'') ''PUT'' ''/x'' None None)
     = [EvStartSpinner ''Platform API call (PUT /x)'', EvDo (sample_request ''PUT'' ''tok''),
        EvResponse 303, EvReadAll (Some ''moved''), EvStopSpinner True, EvStopSpinner False]"
  using
    see_other_is_success[of "sample_env (server_always 303 ''moved'') login_fails"
      "sample_config ''tok''" "''PUT''" "''/x''" None None]
  by (simp add: run_see_other)

lemma httpRequest_no_panic:
  "error_returned (httpRequest E cfg meth path body options) \<noteq> Panicked"
proof (cases rule: httpRequest_run_cases[of E cfg meth path
    body "case options of None \<Rightarrow> emptyOptions | Some given \<Rightarrow> given"])
  case (login_failed e)
  then show ?thesis by (simp add: httpRequest_def stopped_def Let_def)
next
  case (ran cfg1 tr0)
  show ?thesis
    using afterLogin_exactly_one[OF refl ran(1), of E cfg1 meth path body
        "case options of None \<Rightarrow> emptyOptions | Some given \<Rightarrow> given"] ran(2)
    by (simp add: httpRequest_def Let_def)
qed

lemma httpRequest_nil_options:
  "httpRequest E cfg meth path body None
     = (httpRequest E cfg meth path body (Some emptyOptions))\<lparr>caller_options := None\<rparr>"
  by (simp add: httpRequest_def Let_def)

text \<open>
  C10: every public verb called with nil options gives the result of the call with an
  empty \<^verbatim>\<open>Options\<close> value (the same error, output, configuration and events), except that
  the caller's pointer stays nil, so that the response headers written to the fresh
  \<^verbatim>\<open>Options\<close> are not visible to the caller; and the call does not panic.
\<close>

theorem nil_options_accepted:
  "JSONGet E cfg path None = (JSONGet E cfg path (Some emptyOptions))\<lparr>caller_options := None\<rparr> \<and>
   JSONDelete E cfg path None
     = (JSONDelete E cfg path (Some emptyOptions))\<lparr>caller_options := None\<rparr> \<and>
   JSONPost E cfg path body None
     = (JSONPost E cfg path body (Some emptyOptions))\<lparr>caller_options := None\<rparr> \<and>
   HTTPPost E cfg path bs None
     = (HTTPPost E cfg path bs (Some emptyOptions))\<lparr>caller_options := None\<rparr> \<and>
   HTTPGet E cfg path None = (HTTPGet E cfg path (Some emptyOptions))\<lparr>caller_options := None\<rparr> \<and>
   JSONPut E cfg path body None
     = (JSONPut E cfg path body (Some emptyOptions))\<lparr>caller_options := None\<rparr> \<and>
   JSONPatch E cfg path body None
     = (JSONPatch E cfg path body (Some emptyOptions))\<lparr>caller_options := None\<rparr> \<and>
   JSONRequest E cfg meth path body None
     = (JSONRequest E cfg meth path body (Some emptyOptions))\<lparr>caller_options := None\<rparr> \<and>
   error_returned (JSONGet E cfg path None) \<noteq> Panicked \<and>
   error_returned (JSONDelete E cfg path None) \<noteq> Panicked \<and>
   error_returned (JSONPost E cfg path body None) \<noteq> Panicked \<and>
   error_returned (HTTPPost E cfg path bs None) \<noteq> Panicked \<and>
   error_returned (HTTPGet E cfg path None) \<noteq> Panicked \<and>
   error_returned (JSONPut E cfg path body None) \<noteq> Panicked \<and>
   error_returned (JSONPatch E cfg path body None) \<noteq> Panicked \<and>
   error_returned (JSONRequest E cfg meth path body None) \<noteq> Panicked"
  unfolding JSONGet_def JSONDelete_def JSONPost_def HTTPPost_def HTTPGet_def JSONPut_def
    JSONPatch_def JSONRequest_def
  by (intro conjI httpRequest_no_panic httpRequest_nil_options)

text \<open>
  The theorem at \<^verbatim>\<open>JSONGet\<close> answered by 200: with nil options the caller sees no
  options; with empty options it sees the response headers.
\<close>

theorem nil_options_accepted_witness:
  "JSONGet (sample_env (server_always 200 body_ok) login_fails) (sample_config ''tok'') ''/x''
     None
   = \<lparr>error_returned = Return None, out_slot = Some (JObject [(''ok'', JBool True)]),
      caller_options = None, config_after = sample_config ''tok'',
      events = [EvStartSpinner ''Platform API call (GET /x)'',
                EvDo (sample_request ''GET'' ''tok''), EvResponse 200,
                EvReadAll (Some body_ok), EvStopSpinner True, EvUnmarshal True,
                EvStopSpinner False]\<rparr> \<and>
   caller_options (JSONGet (sample_env (server_always 200 body_ok) login_fails)
                     (sample_config ''tok'') ''/x'' (Some emptyOptions))
   = Some (emptyOptions\<lparr>ResponseHeaders :=
             Some [(''Content-Type'', [''application/json''])]\<rparr>)"
  using
    nil_options_accepted[of "sample_env (server_always 200 body_ok) login_fails"
      "sample_config ''tok''" "''/x''" None "[]" "''GET''"]
  by (simp add: JSONGet_def run_ok run_ok_options)

end
